theory Spec2Isabelle
  imports Complex_Main
begin

section \<open>Conventions\<close>

text \<open>
  The quant-demo sources compute on Python and numpy floats, which are IEEE binary64
  numbers: every arithmetic operation returns its exact result rounded to the nearest
  double, ties to even. A float is modelled by the real number it denotes. A NaN cell of a
  pandas column is \<open>None\<close>; a comparison with a NaN operand is false and arithmetic on a NaN
  operand gives NaN, as in pandas. Python exceptions are values of \<open>py_error\<close>.

  Two kinds of definitions follow. Where a definition takes a rounding function \<open>fl\<close>, it
  applies \<open>fl\<close> to the exact result of every float operation of the source, in the source's
  order of evaluation, and to every decimal literal; where it takes a rolling mean \<open>rm\<close>,
  the library's rolling mean is left open. What is proved for every \<open>fl\<close> or \<open>rm\<close> holds
  whatever the rounding does. The definitions without these parameters compute with exact
  arithmetic: they are the instance at the identity and at the exact rolling mean, and
  they agree with the source wherever no comparison of the source is decided by a
  rounding error.
\<close>

datatype py_error = ZeroDivisionError | IndexError | OverflowError | ValueError | NonFinite

text \<open>
  \<open>NonFinite\<close> is not a Python exception. It marks a numpy division by zero in the back-test,
  where the source goes on with inf or NaN and a warning; the model stops there instead of
  inventing a real value. The back-test divides by the entry price only while a position
  is open, and an open position always has a non-zero entry price.
\<close>

subsection \<open>Rounding to the nearest double\<close>

text \<open>Rounding to the nearest integer, halves to the even neighbour.\<close>

definition round_half_even :: "real \<Rightarrow> int" where
  "round_half_even x =
     (let f = \<lfloor>x\<rfloor>; r = x - of_int f
      in if r < 1 / 2 then f else if r > 1 / 2 then f + 1 else if even f then f else f + 1)"

text \<open>
  The binade of \<open>x\<close> is the exponent \<open>e\<close> with \<open>2\<^sup>e \<le> |x| < 2\<^sup>e\<^sup>+\<^sup>1\<close>. A double in that binade
  is a multiple of \<open>2\<^sup>e\<^sup>-\<^sup>5\<^sup>2\<close> (53 significant bits), and \<open>double_round\<close> takes \<open>x\<close> to the nearest
  such multiple, a tie to the one with the even significand. This is IEEE round-to-nearest
  for every result in the normal range of binary64; underflow to a subnormal and overflow
  to infinity are not represented.
\<close>

definition binade :: "real \<Rightarrow> int" where
  "binade x = \<lfloor>log 2 \<bar>x\<bar>\<rfloor>"

definition double_round :: "real \<Rightarrow> real" where
  "double_round x =
     (if x = 0 then 0
      else of_int (round_half_even (x / 2 powi (binade x - 52))) * 2 powi (binade x - 52))"

section \<open>position\_manager.py\<close>

subsection \<open>RiskManager\<close>

record RiskManager =
  max_position_pct :: real
  max_loss_pct :: real
  take_profit_pct :: real
  trailing_stop_pct :: real

text \<open>The constructor's default arguments.\<close>

definition RiskManager_init :: RiskManager where
  "RiskManager_init =
     \<lparr>max_position_pct = 0.3, max_loss_pct = - 0.07,
      take_profit_pct = 0.15, trailing_stop_pct = 0.05\<rparr>"

text \<open>
  \<open>check_stop_loss\<close> and \<open>check_take_profit\<close> divide Python floats by the entry price; a zero
  entry price raises ZeroDivisionError.
\<close>

definition check_stop_loss :: "RiskManager \<Rightarrow> real \<Rightarrow> real \<Rightarrow> py_error + bool" where
  "check_stop_loss rm entry_price current_price =
     (if entry_price = 0 then Inl ZeroDivisionError
      else let loss_pct = (current_price - entry_price) / entry_price
           in Inr (loss_pct \<le> max_loss_pct rm))"

definition check_take_profit :: "RiskManager \<Rightarrow> real \<Rightarrow> real \<Rightarrow> real \<Rightarrow> py_error + bool" where
  "check_take_profit rm entry_price current_price highest_price =
     (if entry_price = 0 then Inl ZeroDivisionError
      else let profit_pct = (current_price - entry_price) / entry_price
           in if profit_pct \<ge> take_profit_pct rm
              then let trailing_stop_price = highest_price * (1 - trailing_stop_pct rm)
                   in Inr (current_price \<le> trailing_stop_price)
              else Inr False)"

subsection \<open>Position and Portfolio\<close>

record Position =
  code :: string
  name :: string
  quantity :: real
  avg_cost :: real
  entry_date :: string
  highest_price :: real

text \<open>\<open>Position.__init__\<close>: the high-water price starts at the average cost.\<close>

definition Position_init :: "string \<Rightarrow> string \<Rightarrow> real \<Rightarrow> real \<Rightarrow> string \<Rightarrow> Position" where
  "Position_init c n q a d =
     \<lparr>code = c, name = n, quantity = q, avg_cost = a, entry_date = d, highest_price = a\<rparr>"

record Portfolio =
  initial_balance :: real
  cash :: real
  positions :: "string \<rightharpoonup> Position"
  risk_manager :: RiskManager

definition Portfolio_init :: "real \<Rightarrow> Portfolio" where
  "Portfolio_init b =
     \<lparr>initial_balance = b, cash = b, positions = Map.empty, risk_manager = RiskManager_init\<rparr>"

text \<open>
  \<open>Portfolio.buy\<close>. The first argument is the string that \<open>datetime.now().strftime\<close>
  returns at the call. The result pairs what the call returns or raises with the
  portfolio it leaves behind: when adding to a position makes its quantity zero, the
  division for the average cost raises after the quantity has already been written, and
  before the cash is debited.
\<close>

definition buy ::
  "string \<Rightarrow> string \<Rightarrow> string \<Rightarrow> real \<Rightarrow> real \<Rightarrow> Portfolio \<Rightarrow> (py_error + bool) \<times> Portfolio" where
  "buy today c n price q p =
     (let cost = price * q in
      if cost > cash p then (Inr False, p)
      else case positions p c of
        Some pos \<Rightarrow>
          let total_cost = avg_cost pos * quantity pos + price * q;
              pos1 = pos\<lparr>quantity := quantity pos + q\<rparr>
          in if quantity pos1 = 0
             then (Inl ZeroDivisionError, p\<lparr>positions := (positions p)(c \<mapsto> pos1)\<rparr>)
             else (Inr True,
                   p\<lparr>positions := (positions p)(c \<mapsto> pos1\<lparr>avg_cost := total_cost / quantity pos1\<rparr>),
                     cash := cash p - cost\<rparr>)
      | None \<Rightarrow>
          (Inr True,
           p\<lparr>positions := (positions p)(c \<mapsto> Position_init c n q price today),
             cash := cash p - cost\<rparr>))"

text \<open>
  \<open>Portfolio.buy\<close> with the rounding of its float operations made explicit: the cost is the
  rounded product, and the guard compares that rounded cost with the cash. \<open>buy\<close> above is
  \<open>buy_with\<close> at the identity.
\<close>

definition buy_with ::
  "(real \<Rightarrow> real) \<Rightarrow> string \<Rightarrow> string \<Rightarrow> string \<Rightarrow> real \<Rightarrow> real \<Rightarrow> Portfolio
     \<Rightarrow> (py_error + bool) \<times> Portfolio" where
  "buy_with fl today c n price q p =
     (let cost = fl (price * q) in
      if cost > cash p then (Inr False, p)
      else case positions p c of
        Some pos \<Rightarrow>
          let total_cost = fl (fl (avg_cost pos * quantity pos) + fl (price * q));
              pos1 = pos\<lparr>quantity := fl (quantity pos + q)\<rparr>
          in if quantity pos1 = 0
             then (Inl ZeroDivisionError, p\<lparr>positions := (positions p)(c \<mapsto> pos1)\<rparr>)
             else (Inr True,
                   p\<lparr>positions :=
                       (positions p)(c \<mapsto> pos1\<lparr>avg_cost := fl (total_cost / quantity pos1)\<rparr>),
                     cash := fl (cash p - cost)\<rparr>)
      | None \<Rightarrow>
          (Inr True,
           p\<lparr>positions := (positions p)(c \<mapsto> Position_init c n q price today),
             cash := fl (cash p - cost)\<rparr>))"

text \<open>\<open>Portfolio.sell\<close>; the quantity argument is \<open>None\<close> when the caller omits it.\<close>

definition sell :: "string \<Rightarrow> real \<Rightarrow> real option \<Rightarrow> Portfolio \<Rightarrow> real \<times> Portfolio" where
  "sell c price q p =
     (case positions p c of
        None \<Rightarrow> (0, p)
      | Some pos \<Rightarrow>
          let qty = (case q of
                       None \<Rightarrow> quantity pos
                     | Some q' \<Rightarrow> if q' \<ge> quantity pos then quantity pos else q');
              proceeds = price * qty;
              pos1 = pos\<lparr>quantity := quantity pos - qty\<rparr>
          in (proceeds,
              p\<lparr>cash := cash p + proceeds,
                positions := (if quantity pos1 \<le> 0 then (positions p)(c := None)
                              else (positions p)(c \<mapsto> pos1))\<rparr>))"

text \<open>
  A sequence of calls on one portfolio. A call that raises leaves its partial update
  behind and the sequence goes on, as under a caller that catches the exception; every
  prefix of a sequence is a sequence, so a property of all final states is a property of
  all intermediate ones.
\<close>

datatype call =
    Buy string string string real real
  | Sell string real "real option"

fun apply_call :: "call \<Rightarrow> Portfolio \<Rightarrow> Portfolio" where
  "apply_call (Buy today c n price q) p = snd (buy today c n price q p)"
| "apply_call (Sell c price q) p = snd (sell c price q p)"

fun run_calls :: "call list \<Rightarrow> Portfolio \<Rightarrow> Portfolio" where
  "run_calls [] p = p"
| "run_calls (x # xs) p = run_calls xs (apply_call x p)"

text \<open>Conditions on a ledger and on the arguments of a call, used to state the invariants.\<close>

definition holdings_nonneg :: "Portfolio \<Rightarrow> bool" where
  "holdings_nonneg p = (\<forall>c pos. positions p c = Some pos \<longrightarrow> 0 \<le> quantity pos)"

definition holdings_positive :: "Portfolio \<Rightarrow> bool" where
  "holdings_positive p = (\<forall>c pos. positions p c = Some pos \<longrightarrow> 0 < quantity pos)"

fun nonneg_args :: "call \<Rightarrow> bool" where
  "nonneg_args (Buy today c n price q) = (0 \<le> q)"
| "nonneg_args (Sell c price q) = (0 \<le> price \<and> (case q of None \<Rightarrow> True | Some q' \<Rightarrow> 0 \<le> q'))"

fun buys_positive :: "call \<Rightarrow> bool" where
  "buys_positive (Buy today c n price q) = (0 < q)"
| "buys_positive (Sell c price q) = True"

section \<open>strategy\_ensemble.py\<close>

subsection \<open>Frames and the pandas operations used\<close>

text \<open>
  A row of the price frame. The strategies read the \<open>close\<close> column only and the
  back-test reads \<open>date\<close> and \<open>close\<close>; the other columns of the data provider (open, high,
  low, volume, ...) are never read by the functions modelled here. A date is the ordinal
  of the trading day.
\<close>

record Bar =
  date :: nat
  close :: real

datatype Signal = BUY | SELL | HOLD

text \<open>\<open>Signal.value\<close>.\<close>

fun Signal_value :: "Signal \<Rightarrow> int" where
  "Signal_value BUY = 1"
| "Signal_value SELL = - 1"
| "Signal_value HOLD = 0"

datatype MarketRegime = TREND_UP | TREND_DOWN | MEAN_REVERSION

text \<open>Comparisons of cells: false as soon as one operand is NaN.\<close>

fun nan_gt :: "real option \<Rightarrow> real option \<Rightarrow> bool" where
  "nan_gt (Some x) (Some y) = (x > y)"
| "nan_gt _ _ = False"

fun nan_lt :: "real option \<Rightarrow> real option \<Rightarrow> bool" where
  "nan_lt (Some x) (Some y) = (x < y)"
| "nan_lt _ _ = False"

text \<open>
  The window of \<open>rolling(w)\<close> that ends at row \<open>i\<close>: the \<open>w\<close> cells up to and including row
  \<open>i\<close>. The default \<open>min_periods\<close> is the window length, so the window yields a value only
  if it is complete and holds no NaN. A window of length 0 never yields a value.
\<close>

definition window :: "nat \<Rightarrow> real option list \<Rightarrow> nat \<Rightarrow> real list option" where
  "window w xs i =
     (if 0 < w \<and> w \<le> Suc i then those (take w (drop (Suc i - w) xs)) else None)"

definition mean :: "real list \<Rightarrow> real" where
  "mean ys = sum_list ys / real (length ys)"

text \<open>The sample standard deviation (pandas' default \<open>ddof = 1\<close>); NaN on a single value.\<close>

definition sample_var :: "real list \<Rightarrow> real" where
  "sample_var ys = sum_list (map (\<lambda>y. (y - mean ys)\<^sup>2) ys) / real (length ys - 1)"

definition sample_std :: "real list \<Rightarrow> real option" where
  "sample_std ys = (if length ys \<le> 1 then None else Some (sqrt (sample_var ys)))"

definition rolling_mean :: "nat \<Rightarrow> real option list \<Rightarrow> real option list" where
  "rolling_mean w xs = map (\<lambda>i. map_option mean (window w xs i)) [0..<length xs]"

definition rolling_std :: "nat \<Rightarrow> real option list \<Rightarrow> real option list" where
  "rolling_std w xs = map (\<lambda>i. Option.bind (window w xs i) sample_std) [0..<length xs]"

text \<open>
  The mean of each window in floating point: the sum accumulated from the oldest value
  with a rounded addition per value, then a rounded division. pandas keeps the window sum
  incrementally (it adds the entering value and subtracts the leaving one), so once values
  have left the window its cell can differ from this one in the last place; on the first
  complete window of a column, and for a window of length 1, both are this float.
\<close>

definition rolling_mean_fl :: "(real \<Rightarrow> real) \<Rightarrow> nat \<Rightarrow> real option list \<Rightarrow> real option list" where
  "rolling_mean_fl fl w xs =
     map (\<lambda>i. map_option (\<lambda>win. fl (foldl (\<lambda>acc x. fl (acc + x)) 0 win / real w))
                 (window w xs i))
       [0..<length xs]"

text \<open>\<open>Series.diff()\<close> on an integer column: NaN in the first row.\<close>

definition diff :: "int list \<Rightarrow> int option list" where
  "diff xs = map (\<lambda>i. if i = 0 then None else Some (xs ! i - xs ! (i - 1))) [0..<length xs]"

text \<open>
  \<open>Series.pct_change()\<close>: NaN in the first row, then \<open>close[i] / close[i-1] - 1\<close>. After a
  close of exactly 0 numpy yields inf or NaN; the model has the one undefined value \<open>None\<close>
  for both, so it is exact on series without a zero close.
\<close>

definition pct_change :: "real list \<Rightarrow> real option list" where
  "pct_change xs =
     map (\<lambda>i. if i = 0 \<or> xs ! (i - 1) = 0 then None else Some (xs ! i / xs ! (i - 1) - 1))
       [0..<length xs]"

text \<open>\<open>Series.mean()\<close> skips NaN cells and is NaN when no cell is left.\<close>

definition nanmean :: "real option list \<Rightarrow> real option" where
  "nanmean xs =
     (let vs = concat (map (\<lambda>x. case x of None \<Rightarrow> [] | Some v \<Rightarrow> [v]) xs)
      in if vs = [] then None else Some (mean vs))"

subsection \<open>TrendStrategy\<close>

text \<open>The columns that \<open>TrendStrategy.calculate\<close> adds. \<open>ma_signal\<close> is the difference of an
  integer column, so its cells are NaN or whole numbers.\<close>

record TrendFrame =
  ma_short :: "real option list"
  ma_long :: "real option list"
  ma_cross :: "int list"
  ma_signal :: "int option list"

text \<open>
  \<open>TrendStrategy.calculate\<close>, with the two window lengths of the strategy object. The
  masked assignments are applied in the source's order.
\<close>

definition TrendStrategy_calculate :: "nat \<Rightarrow> nat \<Rightarrow> Bar list \<Rightarrow> TrendFrame" where
  "TrendStrategy_calculate short long df =
     (let c = map (\<lambda>b. Some (close b)) df;
          ms = rolling_mean short c;
          ml = rolling_mean long c;
          cross = map (\<lambda>i. let c0 = 0;
                                 c1 = (if nan_gt (ms ! i) (ml ! i) then 1 else c0)
                             in if nan_lt (ms ! i) (ml ! i) then - 1 else c1)
                    [0..<length df];
          sig = map (map_option (\<lambda>d. let d1 = (if d > 0 then 1 else d)
                                       in if d1 < 0 then - 1 else d1))
                  (diff cross)
      in \<lparr>ma_short = ms, ma_long = ml, ma_cross = cross, ma_signal = sig\<rparr>)"

text \<open>\<open>TrendStrategy.get_signal\<close>; \<open>df.iloc[-1]\<close> raises IndexError on an empty frame.\<close>

definition TrendStrategy_get_signal :: "nat \<Rightarrow> nat \<Rightarrow> Bar list \<Rightarrow> py_error + Signal" where
  "TrendStrategy_get_signal short long df =
     (let f = TrendStrategy_calculate short long df in
      if length df < long then Inr HOLD
      else if df = [] then Inl IndexError
      else if last (ma_signal f) = Some 1 then Inr BUY
      else if last (ma_signal f) = Some (- 1) then Inr SELL
      else if last (ma_cross f) = 1 then Inr HOLD
      else Inr HOLD)"

text \<open>
  The same two functions with the rolling mean of the library as a parameter \<open>rm\<close>: the
  comparisons, the difference and the masked assignments of the source are exact on
  floats, so all rounding of the strategy happens inside \<open>rm\<close>. \<open>TrendStrategy_calculate\<close> and
  \<open>TrendStrategy_get_signal\<close> are these at the exact \<open>rolling_mean\<close>.
\<close>

definition TrendStrategy_calculate_with ::
  "(nat \<Rightarrow> real option list \<Rightarrow> real option list) \<Rightarrow> nat \<Rightarrow> nat \<Rightarrow> Bar list \<Rightarrow> TrendFrame" where
  "TrendStrategy_calculate_with rm short long df =
     (let c = map (\<lambda>b. Some (close b)) df;
          ms = rm short c;
          ml = rm long c;
          cross = map (\<lambda>i. let c0 = 0;
                                 c1 = (if nan_gt (ms ! i) (ml ! i) then 1 else c0)
                             in if nan_lt (ms ! i) (ml ! i) then - 1 else c1)
                    [0..<length df];
          sig = map (map_option (\<lambda>d. let d1 = (if d > 0 then 1 else d)
                                       in if d1 < 0 then - 1 else d1))
                  (diff cross)
      in \<lparr>ma_short = ms, ma_long = ml, ma_cross = cross, ma_signal = sig\<rparr>)"

definition TrendStrategy_get_signal_with ::
  "(nat \<Rightarrow> real option list \<Rightarrow> real option list) \<Rightarrow> nat \<Rightarrow> nat \<Rightarrow> Bar list
     \<Rightarrow> py_error + Signal" where
  "TrendStrategy_get_signal_with rm short long df =
     (let f = TrendStrategy_calculate_with rm short long df in
      if length df < long then Inr HOLD
      else if df = [] then Inl IndexError
      else if last (ma_signal f) = Some 1 then Inr BUY
      else if last (ma_signal f) = Some (- 1) then Inr SELL
      else if last (ma_cross f) = 1 then Inr HOLD
      else Inr HOLD)"

subsection \<open>MeanReversionStrategy\<close>

record BandFrame =
  ma :: "real option list"
  std :: "real option list"
  upper :: "real option list"
  lower :: "real option list"
  position :: "real option list"

text \<open>
  \<open>MeanReversionStrategy.calculate\<close>. The band position divides by the band width; on a
  zero width numpy yields NaN for \<open>0 / 0\<close> and an infinity otherwise, and the model has
  \<open>None\<close> for both. With a non-zero multiplier a zero width means a zero deviation, hence
  \<open>close = ma = lower\<close> and the source's cell is NaN as well.
\<close>

definition MeanReversionStrategy_calculate :: "nat \<Rightarrow> real \<Rightarrow> Bar list \<Rightarrow> BandFrame" where
  "MeanReversionStrategy_calculate w std_multiplier df =
     (let c = map (\<lambda>b. Some (close b)) df;
          m = rolling_mean w c;
          s = rolling_std w c;
          up = map (\<lambda>i. case (m ! i, s ! i) of
                           (Some a, Some d) \<Rightarrow> Some (a + std_multiplier * d) | _ \<Rightarrow> None)
                 [0..<length df];
          lo = map (\<lambda>i. case (m ! i, s ! i) of
                           (Some a, Some d) \<Rightarrow> Some (a - std_multiplier * d) | _ \<Rightarrow> None)
                 [0..<length df];
          pos = map (\<lambda>i. case (up ! i, lo ! i) of
                            (Some u, Some l) \<Rightarrow>
                              if u - l = 0 then None else Some ((close (df ! i) - l) / (u - l))
                          | _ \<Rightarrow> None)
                  [0..<length df]
      in \<lparr>ma = m, std = s, upper = up, lower = lo, position = pos\<rparr>)"

definition MeanReversionStrategy_get_signal :: "nat \<Rightarrow> real \<Rightarrow> Bar list \<Rightarrow> py_error + Signal" where
  "MeanReversionStrategy_get_signal w std_multiplier df =
     (let f = MeanReversionStrategy_calculate w std_multiplier df in
      if length df < w then Inr HOLD
      else if df = [] then Inl IndexError
      else if nan_lt (Some (close (last df))) (last (lower f)) then Inr BUY
      else if nan_gt (Some (close (last df))) (last (upper f)) then Inr SELL
      else if nan_lt (last (position f)) (Some 0.2) then Inr BUY
      else if nan_gt (last (position f)) (Some 0.8) then Inr SELL
      else Inr HOLD)"

subsection \<open>MarketRegimeDetector\<close>

definition detect :: "Bar list \<Rightarrow> MarketRegime" where
  "detect df =
     (if length df < 20 then MEAN_REVERSION
      else
        let returns = pct_change (map close df);
            volatility = rolling_std 20 returns;
            ma20 = rolling_mean 20 (map (\<lambda>b. Some (close b)) df);
            ma60 = rolling_mean 60 (map (\<lambda>b. Some (close b)) df);
            current_vol = last volatility;
            avg_vol = nanmean volatility
        in if nan_gt current_vol (map_option (\<lambda>v. v * 1.2) avg_vol) then MEAN_REVERSION
           else if nan_gt (last ma20) (last ma60) then TREND_UP
           else TREND_DOWN)"

subsection \<open>StrategyEnsemble\<close>

record Weights =
  w_trend :: real
  w_reversion :: real
  w_llm :: real

record EnsembleResult =
  signal :: Signal
  score :: real
  market_regime :: MarketRegime
  trend_signal :: Signal
  reversion_signal :: Signal
  llm_signal :: Signal
  weights :: Weights

text \<open>
  The members of a \<open>StrategyEnsemble\<close> that \<open>get_ensemble_signal\<close> calls: the \<open>get_signal\<close>
  methods of its two strategies and the \<open>detect\<close> method of its detector. The constructor
  builds the strategies with the defaults of \<open>Config\<close>: windows 5 and 20 for the trend,
  window 20 and multiplier 2.0 for the reversion.
\<close>

record StrategyEnsemble =
  trend_strategy :: "Bar list \<Rightarrow> py_error + Signal"
  reversion_strategy :: "Bar list \<Rightarrow> py_error + Signal"
  market_detector :: "Bar list \<Rightarrow> MarketRegime"

definition StrategyEnsemble_init :: StrategyEnsemble where
  "StrategyEnsemble_init =
     \<lparr>trend_strategy = TrendStrategy_get_signal 5 20,
      reversion_strategy = MeanReversionStrategy_get_signal 20 2,
      market_detector = detect\<rparr>"

text \<open>
  \<open>StrategyEnsemble.get_ensemble_signal\<close>, with the rounding \<open>fl\<close> of its float operations:
  each weight and the threshold are decimal literals, each product of a signal value
  (an integer) with a weight is a float product, and the score is the float sum of the
  three products from left to right. The advisory model is an external service: the
  argument \<open>llm\<close> is \<open>None\<close> when no API key is configured, and otherwise the signal that
  \<open>analyze_technical\<close> returns (HOLD when the call fails, since every failure is caught).
\<close>

definition get_ensemble_signal ::
  "(real \<Rightarrow> real) \<Rightarrow> StrategyEnsemble \<Rightarrow> Bar list \<Rightarrow> MarketRegime option \<Rightarrow> Signal option
     \<Rightarrow> py_error + EnsembleResult" where
  "get_ensemble_signal fl self df regime_arg llm =
     (let regime = (case regime_arg of None \<Rightarrow> market_detector self df | Some r \<Rightarrow> r) in
      case trend_strategy self df of
        Inl err \<Rightarrow> Inl err
      | Inr ts \<Rightarrow>
      case reversion_strategy self df of
        Inl err \<Rightarrow> Inl err
      | Inr rs \<Rightarrow>
        let wts = (if regime = TREND_UP
                     then \<lparr>w_trend = fl 0.5, w_reversion = fl 0.2, w_llm = fl 0.3\<rparr>
                   else if regime = TREND_DOWN
                     then \<lparr>w_trend = fl 0.5, w_reversion = fl 0.1, w_llm = fl 0.4\<rparr>
                   else \<lparr>w_trend = fl 0.2, w_reversion = fl 0.5, w_llm = fl 0.3\<rparr>);
            ls = (case llm of None \<Rightarrow> HOLD | Some s \<Rightarrow> s);
            sc = fl (fl (fl (real_of_int (Signal_value ts) * w_trend wts)
                         + fl (real_of_int (Signal_value rs) * w_reversion wts))
                     + fl (real_of_int (Signal_value ls) * w_llm wts));
            final_signal = (if sc > fl 0.3 then BUY else if sc < - fl 0.3 then SELL else HOLD)
        in Inr \<lparr>signal = final_signal, score = sc, market_regime = regime,
                 trend_signal = ts, reversion_signal = rs, llm_signal = ls, weights = wts\<rparr>)"

subsection \<open>The indicator columns in the words of the specification\<close>

text \<open>
  The specification describes the columns row by row. \<open>spec_ma\<close> is the simple rolling mean
  of the closing price over the window ending at row \<open>t\<close>, absent while fewer than \<open>w\<close>
  rows exist. \<open>spec_cross_state\<close> is \<open>+1\<close> if the short mean is above the long one, \<open>-1\<close> if
  it is below, and 0 if one of them is undefined (and, as in the source, if they are
  equal). \<open>spec_cross_event\<close> is the direction of the change of the cross state against
  the prior row, undefined in the first row.
\<close>

definition spec_ma :: "nat \<Rightarrow> real list \<Rightarrow> nat \<Rightarrow> real option" where
  "spec_ma w closes t =
     (if 0 < w \<and> w \<le> t + 1
      then Some (sum_list (map (\<lambda>i. closes ! i) [t + 1 - w..<t + 1]) / real w)
      else None)"

definition spec_cross_state :: "nat \<Rightarrow> nat \<Rightarrow> real list \<Rightarrow> nat \<Rightarrow> int" where
  "spec_cross_state short long closes t =
     (case (spec_ma short closes t, spec_ma long closes t) of
        (Some a, Some b) \<Rightarrow> if a > b then 1 else if a < b then - 1 else 0
      | _ \<Rightarrow> 0)"

definition spec_cross_event :: "nat \<Rightarrow> nat \<Rightarrow> real list \<Rightarrow> nat \<Rightarrow> int option" where
  "spec_cross_event short long closes t =
     (if t = 0 then None
      else Some (sgn (spec_cross_state short long closes t
                      - spec_cross_state short long closes (t - 1))))"

text \<open>
  The same cross state and cross event for two given moving-average columns, whatever
  computed them.
\<close>

definition spec_cross_state_of :: "real option \<Rightarrow> real option \<Rightarrow> int" where
  "spec_cross_state_of a b =
     (case (a, b) of
        (Some x, Some y) \<Rightarrow> if x > y then 1 else if x < y then - 1 else 0
      | _ \<Rightarrow> 0)"

definition spec_cross_event_of :: "real option list \<Rightarrow> real option list \<Rightarrow> nat \<Rightarrow> int option" where
  "spec_cross_event_of ms ml t =
     (if t = 0 then None
      else Some (sgn (spec_cross_state_of (ms ! t) (ml ! t)
                      - spec_cross_state_of (ms ! (t - 1)) (ml ! (t - 1)))))"

text \<open>Reading one row of the derived columns (\<open>df.iloc[t]\<close>).\<close>

definition TrendFrame_iloc ::
  "TrendFrame \<Rightarrow> nat \<Rightarrow> real option \<times> real option \<times> int \<times> int option" where
  "TrendFrame_iloc f t = (ma_short f ! t, ma_long f ! t, ma_cross f ! t, ma_signal f ! t)"

definition BandFrame_iloc ::
  "BandFrame \<Rightarrow> nat \<Rightarrow> real option \<times> real option \<times> real option \<times> real option \<times> real option" where
  "BandFrame_iloc f t = (ma f ! t, std f ! t, upper f ! t, lower f ! t, position f ! t)"

text \<open>The number of rolling-volatility observations that \<open>detect\<close> has on a frame.\<close>

definition volatility_observations :: "Bar list \<Rightarrow> nat" where
  "volatility_observations df =
     length (filter (\<lambda>v. v \<noteq> None) (rolling_std 20 (pct_change (map close df))))"

subsection \<open>Test series\<close>

text \<open>\<open>n\<close> trading days at a constant close, and 60 days at 100 followed by a drop to 90.\<close>

definition flat_bars :: "nat \<Rightarrow> real \<Rightarrow> Bar list" where
  "flat_bars n c = map (\<lambda>i. \<lparr>date = i, close = c\<rparr>) [0..<n]"

definition crash_bars :: "Bar list" where
  "crash_bars = flat_bars 60 100 @ [\<lparr>date = 60, close = 90\<rparr>]"

text \<open>
  59 days at 100, then 101 and 110: the short mean is above the long one on both last
  days and the last close is above the upper band.
\<close>

definition spike_bars :: "Bar list" where
  "spike_bars = flat_bars 59 100 @ [\<lparr>date = 59, close = 101\<rparr>, \<lparr>date = 60, close = 110\<rparr>]"

text \<open>
  Three closes that are doubles: \<open>0.1\<close> as a double, that is \<open>7205759403792794 / 2\<^sup>5\<^sup>6\<close>, less
  and plus \<open>2\<^sup>-\<^sup>1\<^sup>0\<close>, and then itself. Their exact mean is the last close.
\<close>

definition tie_bars :: "Bar list" where
  "tie_bars =
     [\<lparr>date = 0, close = 7205759403792794 / 2 ^ 56 - 1 / 2 ^ 10\<rparr>,
      \<lparr>date = 1, close = 7205759403792794 / 2 ^ 56 + 1 / 2 ^ 10\<rparr>,
      \<lparr>date = 2, close = 7205759403792794 / 2 ^ 56\<rparr>]"

section \<open>backtest.py\<close>

subsection \<open>BacktestConfig\<close>

definition COMMISSION_RATE :: real where "COMMISSION_RATE = 0.0015"
definition SLIPPAGE :: real where "SLIPPAGE = 0.001"
definition STOP_LOSS :: real where "STOP_LOSS = - 0.10"
definition TAKE_PROFIT :: real where "TAKE_PROFIT = 0.20"
definition TRAILING_STOP :: real where "TRAILING_STOP = 0.08"

subsection \<open>BacktestEngine\<close>

text \<open>
  The entries of the trade log and of the equity curve. A BUY entry has no \<open>profit_pct\<close>
  key.
\<close>

record Trade =
  trade_date :: nat
  trade_action :: string
  trade_price :: real
  trade_shares :: int
  trade_profit_pct :: "real option"

record EquityPoint =
  point_date :: nat
  equity :: real

text \<open>
  The fields of the engine that \<open>run\<close> writes. The constructor also stores the symbol, its
  name, the two strategies and the detector (all with their default parameters), a
  \<open>RiskManager\<close> built from \<open>BacktestConfig\<close> and a \<open>Portfolio\<close>; none of these is written
  afterwards, and \<open>run\<close> reads neither the risk manager nor the portfolio.
\<close>

record BacktestEngine =
  initial_capital :: real
  trades :: "Trade list"
  equity_curve :: "EquityPoint list"
  current_position :: int
  entry_price :: real
  total_trades :: nat
  winning_trades :: nat
  losing_trades :: nat

definition BacktestEngine_init :: "real \<Rightarrow> BacktestEngine" where
  "BacktestEngine_init ic =
     \<lparr>initial_capital = ic, trades = [], equity_curve = [], current_position = 0,
      entry_price = 0, total_trades = 0, winning_trades = 0, losing_trades = 0\<rparr>"

text \<open>The risk manager that the constructor builds and \<open>run\<close> never consults.\<close>

definition BacktestEngine_risk :: RiskManager where
  "BacktestEngine_risk =
     \<lparr>max_position_pct = 0.3, max_loss_pct = STOP_LOSS,
      take_profit_pct = TAKE_PROFIT, trailing_stop_pct = TRAILING_STOP\<rparr>"

text \<open>\<open>int(x)\<close> truncates towards zero; \<open>round(x, 2)\<close> rounds halves to even.\<close>

definition py_int :: "real \<Rightarrow> int" where
  "py_int x = (if x \<ge> 0 then \<lfloor>x\<rfloor> else \<lceil>x\<rceil>)"

definition round2 :: "real \<Rightarrow> real" where
  "round2 x = of_int (round_half_even (x * 100)) / 100"

text \<open>
  \<open>BacktestEngine.get_signal\<close>: the ensemble of the long-horizon back-test, with its own
  weights and the threshold 0.5.
\<close>

definition BacktestEngine_get_signal :: "Bar list \<Rightarrow> nat \<Rightarrow> py_error + Signal" where
  "BacktestEngine_get_signal df i =
     (if i < 60 then Inr HOLD
      else
        let subset = take (i + 1) df in
        case TrendStrategy_get_signal 5 20 subset of
          Inl err \<Rightarrow> Inl err
        | Inr ts \<Rightarrow>
        case MeanReversionStrategy_get_signal 20 2 subset of
          Inl err \<Rightarrow> Inl err
        | Inr rs \<Rightarrow>
          let regime = detect subset;
              tv = real_of_int (Signal_value ts);
              rv = real_of_int (Signal_value rs);
              sc = (if regime = TREND_UP then tv * 0.7 + rv * 0.3
                    else if regime = TREND_DOWN then tv * 0.7 + rv * 0.3
                    else rv * 0.8 + tv * 0.2)
          in Inr (if sc > 0.5 then BUY else if sc < - 0.5 then SELL else HOLD))"

text \<open>
  \<open>BacktestEngine.execute_trade\<close>. The prices come from the frame and are numpy floats: a
  zero buy price makes the share count \<open>int(inf)\<close> or \<open>int(nan)\<close>, which raises.
\<close>

definition execute_trade ::
  "Signal \<Rightarrow> real \<Rightarrow> nat \<Rightarrow> BacktestEngine \<Rightarrow> py_error + BacktestEngine" where
  "execute_trade sg pr d e =
     (let commission = pr * COMMISSION_RATE;
          slippage = pr * SLIPPAGE
      in if sg = BUY \<and> current_position e = 0 then
           let buy_price = pr + commission + slippage
           in if buy_price = 0
              then Inl (if initial_capital e * 0.3 = 0 then ValueError else OverflowError)
              else let max_shares = py_int (initial_capital e * 0.3 / buy_price)
                   in if max_shares > 0
                      then Inr (e\<lparr>current_position := 1,
                                  entry_price := buy_price,
                                  total_trades := total_trades e + 1,
                                  trades := trades e @
                                    [\<lparr>trade_date = d, trade_action = ''BUY'',
                                      trade_price = round2 buy_price,
                                      trade_shares = max_shares,
                                      trade_profit_pct = None\<rparr>]\<rparr>)
                      else Inr e
         else if sg = SELL \<and> current_position e = 1 then
           let sell_price = pr - commission - slippage
           in if entry_price e = 0 then Inl NonFinite
              else let profit = (sell_price - entry_price e) / entry_price e
                   in Inr (e\<lparr>winning_trades :=
                                 (if profit > 0 then winning_trades e + 1 else winning_trades e),
                               losing_trades :=
                                 (if profit > 0 then losing_trades e else losing_trades e + 1),
                               trades := trades e @
                                 [\<lparr>trade_date = d, trade_action = ''SELL'',
                                   trade_price = round2 sell_price,
                                   trade_shares = 0,
                                   trade_profit_pct = Some (round2 (profit * 100))\<rparr>],
                               current_position := 0,
                               entry_price := 0\<rparr>)
         else Inr e)"

text \<open>\<open>BacktestEngine.check_stop_loss_take_profit\<close>: what it returns and the engine after it.\<close>

definition check_stop_loss_take_profit ::
  "real \<Rightarrow> nat \<Rightarrow> BacktestEngine \<Rightarrow> py_error + (bool \<times> BacktestEngine)" where
  "check_stop_loss_take_profit pr d e =
     (if current_position e = 0 then Inr (False, e)
      else if entry_price e = 0 then Inl NonFinite
      else
        let profit = (pr - entry_price e) / entry_price e
        in if profit \<le> STOP_LOSS
           then map_sum id (\<lambda>e'. (True, e')) (execute_trade SELL pr d e)
           else if profit \<ge> TAKE_PROFIT
           then let trailing_stop_price = pr * (1 - TRAILING_STOP)
                in if entry_price e < trailing_stop_price
                   then map_sum id (\<lambda>e'. (True, e')) (execute_trade SELL pr d e)
                   else Inr (False, e)
           else Inr (False, e))"

text \<open>
  One iteration of the loop of \<open>BacktestEngine.run\<close>, for a row index \<open>i\<close> of the frame,
  the loop over a list of row indices, and \<open>run\<close> itself up to the forced liquidation;
  the report that \<open>run\<close> finally derives from the engine is not modelled. \<open>run\<close> prints the
  first date before anything else, which raises IndexError on an empty frame. The
  indicator columns that \<open>run\<close> computes first are recomputed by every \<open>get_signal\<close> on its
  own subset, so the loop depends on the frame's dates and closes only.
\<close>

definition run_day :: "Bar list \<Rightarrow> nat \<Rightarrow> BacktestEngine \<Rightarrow> py_error + BacktestEngine" where
  "run_day df i e =
     (let d = date (df ! i);
          c = close (df ! i)
      in case check_stop_loss_take_profit c d e of
           Inl err \<Rightarrow> Inl err
         | Inr (triggered, e1) \<Rightarrow>
           case (if current_position e1 = 0
                 then case BacktestEngine_get_signal df i of
                        Inl err \<Rightarrow> Inl err
                      | Inr sg \<Rightarrow> execute_trade sg c d e1
                 else Inr e1) of
             Inl err \<Rightarrow> Inl err
           | Inr e2 \<Rightarrow>
               if current_position e2 = 1
               then if entry_price e2 = 0 then Inl NonFinite
                    else Inr (e2\<lparr>equity_curve := equity_curve e2 @
                           [\<lparr>point_date = d,
                             equity = initial_capital e2 * 0.3
                               + (c - entry_price e2)
                                 * (initial_capital e2 * 0.3 / entry_price e2)\<rparr>]\<rparr>)
               else Inr (e2\<lparr>equity_curve := equity_curve e2 @
                           [\<lparr>point_date = d, equity = initial_capital e2\<rparr>]\<rparr>))"

fun run_days :: "Bar list \<Rightarrow> nat list \<Rightarrow> BacktestEngine \<Rightarrow> py_error + BacktestEngine" where
  "run_days df [] e = Inr e"
| "run_days df (i # rest) e =
     (case run_day df i e of Inl err \<Rightarrow> Inl err | Inr e' \<Rightarrow> run_days df rest e')"

definition run :: "Bar list \<Rightarrow> BacktestEngine \<Rightarrow> py_error + BacktestEngine" where
  "run df e =
     (if df = [] then Inl IndexError
      else case run_days df [0..<length df] e of
             Inl err \<Rightarrow> Inl err
           | Inr e1 \<Rightarrow>
               if current_position e1 = 1
               then execute_trade SELL (close (last df)) (date (last df)) e1
               else Inr e1)"

text \<open>
  The condition under which the engine never divides by a zero entry price: no position
  is open, or the entry price is not zero. The constructor establishes it.
\<close>

definition entry_known :: "BacktestEngine \<Rightarrow> bool" where
  "entry_known e = (current_position e = 0 \<or> entry_price e \<noteq> 0)"

section \<open>backtest\_v3.py\<close>

text \<open>
  The columns that \<open>MAStrategy.calculate\<close> adds: \<open>golden_cross\<close> is the comparison cast to an
  integer (so it is 0 where a mean is NaN), \<open>cross_change\<close> its difference.
\<close>

record CrossFrame =
  ma_short_v3 :: "real option list"
  ma_long_v3 :: "real option list"
  golden_cross :: "int list"
  cross_change :: "int option list"

definition MAStrategy_calculate :: "nat \<Rightarrow> nat \<Rightarrow> Bar list \<Rightarrow> CrossFrame" where
  "MAStrategy_calculate short long df =
     (let c = map (\<lambda>b. Some (close b)) df;
          ms = rolling_mean short c;
          ml = rolling_mean long c;
          gc = map (\<lambda>i. if nan_gt (ms ! i) (ml ! i) then 1 else 0) [0..<length df]
      in \<lparr>ma_short_v3 = ms, ma_long_v3 = ml, golden_cross = gc, cross_change = diff gc\<rparr>)"

text \<open>\<open>MAStrategy.get_signal\<close> reads row \<open>i\<close> of the frame computed once on the whole series.\<close>

definition MAStrategy_get_signal :: "nat \<Rightarrow> CrossFrame \<Rightarrow> nat \<Rightarrow> int" where
  "MAStrategy_get_signal long f i =
     (if i < long + 10 then 0
      else if cross_change f ! i = Some 1 then 1
      else if cross_change f ! i = Some (- 1) then - 1
      else 0)"

text \<open>
  The local variables of \<open>backtest_with_chart\<close> that its loop writes. A trade entry holds
  the date, the action, the price and, for a sell, the profit in percent.
\<close>

record ChartTrade =
  chart_date :: nat
  chart_action :: string
  chart_price :: real
  chart_profit :: "real option"

record ChartState =
  capital :: real
  position_v3 :: int
  shares :: int
  entry_price_v3 :: real
  trades_v3 :: "ChartTrade list"
  equity_curve_v3 :: "EquityPoint list"

definition ChartState_init :: ChartState where
  "ChartState_init =
     \<lparr>capital = 100000, position_v3 = 0, shares = 0, entry_price_v3 = 0,
      trades_v3 = [], equity_curve_v3 = []\<rparr>"

text \<open>
  One iteration of the loop, for a row index \<open>i\<close> of the frame. As in the other driver, a
  zero price at a buy makes \<open>int(capital / price)\<close> raise.
\<close>

definition chart_day :: "CrossFrame \<Rightarrow> Bar list \<Rightarrow> nat \<Rightarrow> ChartState \<Rightarrow> py_error + ChartState" where
  "chart_day f df i st =
     (let d = date (df ! i);
          pr = close (df ! i);
          sg = MAStrategy_get_signal 60 f i
      in case (if sg = 1 \<and> position_v3 st = 0 then
                 if pr = 0 then Inl (if capital st = 0 then ValueError else OverflowError)
                 else let sh = py_int (capital st / pr);
                          cost = of_int sh * pr
                      in Inr (st\<lparr>shares := sh,
                                 capital := capital st - cost,
                                 position_v3 := 1,
                                 entry_price_v3 := pr,
                                 trades_v3 := trades_v3 st @
                                   [\<lparr>chart_date = d, chart_action = ''BUY'', chart_price = pr,
                                     chart_profit = None\<rparr>]\<rparr>)
               else if sg = - 1 \<and> position_v3 st = 1 then
                 if entry_price_v3 st = 0 then Inl NonFinite
                 else let revenue = of_int (shares st) * pr;
                          profit = (pr - entry_price_v3 st) / entry_price_v3 st * 100
                      in Inr (st\<lparr>capital := capital st + revenue,
                                 trades_v3 := trades_v3 st @
                                   [\<lparr>chart_date = d, chart_action = ''SELL'', chart_price = pr,
                                     chart_profit = Some profit\<rparr>],
                                 position_v3 := 0\<rparr>)
               else Inr st) of
           Inl err \<Rightarrow> Inl err
         | Inr st1 \<Rightarrow>
             let eq = (if position_v3 st1 = 1 then capital st1 + of_int (shares st1) * pr
                       else capital st1)
             in Inr (st1\<lparr>equity_curve_v3 := equity_curve_v3 st1 @
                       [\<lparr>point_date = d, equity = eq\<rparr>]\<rparr>))"

fun chart_days :: "CrossFrame \<Rightarrow> Bar list \<Rightarrow> nat list \<Rightarrow> ChartState \<Rightarrow> py_error + ChartState" where
  "chart_days f df [] st = Inr st"
| "chart_days f df (i # rest) st =
     (case chart_day f df i st of Inl err \<Rightarrow> Inl err | Inr st' \<Rightarrow> chart_days f df rest st')"

text \<open>
  The loop of \<open>backtest_with_chart\<close> from row 70 on and the final liquidation, on the frame
  that \<open>get_data\<close> returned; the printing and the chart are not modelled. The function
  prints the first date before the loop, which raises IndexError on an empty frame.
\<close>

definition backtest_with_chart :: "Bar list \<Rightarrow> py_error + ChartState" where
  "backtest_with_chart df =
     (if df = [] then Inl IndexError
      else case chart_days (MAStrategy_calculate 20 60 df) df [70..<length df] ChartState_init of
             Inl err \<Rightarrow> Inl err
           | Inr st \<Rightarrow>
               if position_v3 st = 1
               then Inr (st\<lparr>capital := capital st + of_int (shares st) * close (last df)\<rparr>)
               else Inr st)"

text \<open>The quantity held in a state of the loop: the share count while the position flag is set.\<close>

definition held_v3 :: "ChartState \<Rightarrow> real" where
  "held_v3 st = (if position_v3 st = 1 then of_int (shares st) else 0)"

section \<open>Properties of the position ledger\<close>

lemma buy_cash_nonneg:
  "0 \<le> cash p \<Longrightarrow> 0 \<le> cash (snd (buy today c n price q p))"
  by (simp add: buy_def Let_def split: option.splits)

lemma buy_holdings_nonneg:
  "holdings_nonneg p \<Longrightarrow> 0 \<le> q \<Longrightarrow> holdings_nonneg (snd (buy today c n price q p))"
  by (auto simp: buy_def Let_def holdings_nonneg_def Position_init_def split: option.splits if_splits)

lemma sell_cash_nonneg:
  assumes "0 \<le> cash p" and "holdings_nonneg p" and "0 \<le> price"
    and "case q of None \<Rightarrow> True | Some q' \<Rightarrow> 0 \<le> q'"
  shows "0 \<le> cash (snd (sell c price q p))"
proof (cases "positions p c")
  case None
  then show ?thesis using assms(1) by (simp add: sell_def)
next
  case (Some pos)
  with assms(2) have held: "0 \<le> quantity pos" by (auto simp: holdings_nonneg_def)
  have "0 \<le> (case q of None \<Rightarrow> quantity pos
               | Some q' \<Rightarrow> if q' \<ge> quantity pos then quantity pos else q')"
    using held assms(4) by (cases q) auto
  with assms(3) have "0 \<le> price * (case q of None \<Rightarrow> quantity pos
               | Some q' \<Rightarrow> if q' \<ge> quantity pos then quantity pos else q')"
    by simp
  with assms(1) Some show ?thesis by (simp add: sell_def Let_def)
qed

lemma sell_holdings_nonneg:
  "holdings_nonneg p \<Longrightarrow> holdings_nonneg (snd (sell c price q p))"
  by (auto simp: sell_def Let_def holdings_nonneg_def split: option.splits if_splits)

lemma apply_call_nonneg:
  assumes "0 \<le> cash p" and "holdings_nonneg p" and "nonneg_args x"
  shows "0 \<le> cash (apply_call x p) \<and> holdings_nonneg (apply_call x p)"
proof (cases x)
  case (Buy today c n price q)
  with assms show ?thesis by (simp add: buy_cash_nonneg buy_holdings_nonneg)
next
  case (Sell c price q)
  with assms show ?thesis by (simp add: sell_cash_nonneg sell_holdings_nonneg)
qed

lemma run_calls_nonneg:
  "0 \<le> cash p \<Longrightarrow> holdings_nonneg p \<Longrightarrow> list_all nonneg_args cs \<Longrightarrow>
     0 \<le> cash (run_calls cs p) \<and> holdings_nonneg (run_calls cs p)"
proof (induction cs arbitrary: p)
  case Nil
  then show ?case by simp
next
  case (Cons x xs)
  from Cons.prems have "0 \<le> cash (apply_call x p) \<and> holdings_nonneg (apply_call x p)"
    by (intro apply_call_nonneg) simp_all
  with Cons.IH [of "apply_call x p"] Cons.prems show ?case by simp
qed

lemma buy_holdings_positive:
  assumes "holdings_positive p" and "0 < q"
  shows "holdings_positive (snd (buy today c n price q p))"
proof (cases "positions p c")
  case None
  with assms show ?thesis
    by (auto simp: buy_def Let_def holdings_positive_def Position_init_def)
next
  case (Some pos)
  with assms(1) have "0 < quantity pos" by (auto simp: holdings_positive_def)
  with assms(2) have "0 < quantity pos + q" by simp
  with Some assms(1) show ?thesis
    by (auto simp: buy_def Let_def holdings_positive_def)
qed

lemma sell_holdings_positive:
  "holdings_positive p \<Longrightarrow> holdings_positive (snd (sell c price q p))"
  by (auto simp: sell_def Let_def holdings_positive_def split: option.splits if_splits)

lemma run_calls_positive:
  "holdings_positive p \<Longrightarrow> list_all buys_positive cs \<Longrightarrow> holdings_positive (run_calls cs p)"
proof (induction cs arbitrary: p)
  case Nil
  then show ?case by simp
next
  case (Cons x xs)
  from Cons.prems have "holdings_positive (apply_call x p)"
    by (cases x) (simp_all add: buy_holdings_positive sell_holdings_positive)
  with Cons.IH [of "apply_call x p"] Cons.prems show ?case by simp
qed

lemma sell_key_positive_or_absent:
  "positions (snd (sell c price q p)) c = Some pos' \<Longrightarrow> 0 < quantity pos'"
  by (auto simp: sell_def Let_def split: option.splits if_splits)

lemma sell_all_removes:
  "positions p c = Some pos \<Longrightarrow> q = None \<or> (\<exists>q'. q = Some q' \<and> quantity pos \<le> q') \<Longrightarrow>
     positions (snd (sell c price q p)) c = None"
  by (auto simp: sell_def Let_def)


section \<open>Claims about the position ledger\<close>

text \<open>
  C10. For every portfolio holding a position of quantity \<open>q\<close> in a symbol, a sell for that
  symbol with a requested quantity at least \<open>q\<close>, or with no quantity given, sells exactly
  \<open>q\<close>: the proceeds returned are \<open>price \<times> q\<close>, the cash grows by \<open>price \<times> q\<close>, the position
  is removed and nothing else changes.
\<close>

theorem sell_oversized_clamped:
  assumes "positions p c = Some pos"
    and "q = None \<or> (\<exists>q'. q = Some q' \<and> quantity pos \<le> q')"
  shows "sell c price q p =
           (price * quantity pos,
            p\<lparr>cash := cash p + price * quantity pos, positions := (positions p)(c := None)\<rparr>)"
  using assms by (auto simp: sell_def Let_def)

theorem sell_oversized_clamped_witness:
  "positions (run_calls [Buy ''2026-02-17'' ''510050'' ''ETF50'' 10 5] (Portfolio_init 1000))
      ''510050'' = Some (Position_init ''510050'' ''ETF50'' 5 10 ''2026-02-17'') \<and>
   sell ''510050'' 12 (Some 50)
      (run_calls [Buy ''2026-02-17'' ''510050'' ''ETF50'' 10 5] (Portfolio_init 1000))
     = (60, \<lparr>initial_balance = 1000, cash = 1010, positions = Map.empty,
             risk_manager = RiskManager_init\<rparr>)"
proof -
  let ?p = "run_calls [Buy ''2026-02-17'' ''510050'' ''ETF50'' 10 5] (Portfolio_init 1000)"
  let ?pos = "Position_init ''510050'' ''ETF50'' 5 10 ''2026-02-17''"
  have held: "positions ?p ''510050'' = Some ?pos"
    by (simp add: buy_def Portfolio_init_def)
  have req: "Some (50::real) = None \<or> (\<exists>q'. Some (50::real) = Some q' \<and> quantity ?pos \<le> q')"
    by (simp add: Position_init_def)
  from sell_oversized_clamped [OF held req, of 12] held show ?thesis
    by (simp add: buy_def Portfolio_init_def Position_init_def)
qed

text \<open>
  C3, as stated, fails: the ledger does not check the sign of a quantity or of a price, so
  a sell of a negative quantity debits the cash. A new portfolio with cash 100 buys one
  share at 10 and then sells \<open>-20\<close> shares at 10; the cash ends at \<open>-110\<close>.
\<close>

theorem cash_negative_counterexample:
  "0 \<le> cash (Portfolio_init 100) \<and>
   cash (run_calls [Buy ''2026-02-17'' ''510050'' ''ETF50'' 10 1,
                    Sell ''510050'' 10 (Some (- 20))] (Portfolio_init 100)) = - 110"
  by (simp add: buy_def sell_def Portfolio_init_def Position_init_def)

text \<open>
  C3, amended. Starting from any portfolio whose cash and held quantities are
  non-negative, after any finite sequence of buy calls with a non-negative quantity and
  sell calls with a non-negative price and a non-negative or omitted quantity, the cash
  balance is not negative.
\<close>

theorem cash_never_negative:
  "0 \<le> cash p \<Longrightarrow> holdings_nonneg p \<Longrightarrow> list_all nonneg_args cs \<Longrightarrow>
     0 \<le> cash (run_calls cs p)"
  by (simp add: run_calls_nonneg)

theorem cash_never_negative_witness:
  "0 \<le> cash (Portfolio_init 100) \<and> holdings_nonneg (Portfolio_init 100) \<and>
   list_all nonneg_args
     [Buy ''2026-02-17'' ''510050'' ''ETF50'' 10 4, Buy ''2026-02-18'' ''510050'' ''ETF50'' 20 5,
      Sell ''510050'' 12 (Some 1), Buy ''2026-02-19'' ''510300'' ''ETF300'' 60 1,
      Sell ''510050'' 9 None] \<and>
   0 \<le> cash (run_calls
     [Buy ''2026-02-17'' ''510050'' ''ETF50'' 10 4, Buy ''2026-02-18'' ''510050'' ''ETF50'' 20 5,
      Sell ''510050'' 12 (Some 1), Buy ''2026-02-19'' ''510300'' ''ETF300'' 60 1,
      Sell ''510050'' 9 None] (Portfolio_init 100))"
proof -
  have h1: "0 \<le> cash (Portfolio_init 100)"
    by (simp add: Portfolio_init_def)
  have h2: "holdings_nonneg (Portfolio_init 100)"
    by (simp add: Portfolio_init_def holdings_nonneg_def)
  have h3: "list_all nonneg_args
     [Buy ''2026-02-17'' ''510050'' ''ETF50'' 10 4, Buy ''2026-02-18'' ''510050'' ''ETF50'' 20 5,
      Sell ''510050'' 12 (Some 1), Buy ''2026-02-19'' ''510300'' ''ETF300'' 60 1,
      Sell ''510050'' 9 None]"
    by simp
  from cash_never_negative [OF h1 h2 h3] h1 h2 h3 show ?thesis by blast
qed

text \<open>
  C4, as stated, fails: \<open>buy\<close> does not check that the quantity is positive. On a new
  portfolio a buy of quantity 0 costs nothing, is accepted, and leaves a position of
  quantity 0 under the symbol's key.
\<close>

theorem zero_quantity_position_counterexample:
  "map_option quantity
     (positions (run_calls [Buy ''2026-02-17'' ''510050'' ''ETF50'' 10 0] (Portfolio_init 100))
        ''510050'') = Some 0"
  by (simp add: buy_def Portfolio_init_def Position_init_def)

text \<open>
  C4, amended. On a portfolio whose positions all have a positive quantity (a new one has
  none), after any finite sequence of sell calls and of buy calls with a positive
  quantity, every symbol key in the positions mapping has quantity \<open>> 0\<close>. After any sell
  the sold symbol's key is either absent or has quantity \<open>> 0\<close>, and after a sell of the
  whole held quantity (requested quantity omitted or at least the held one) the key is
  absent.
\<close>

theorem positions_positive_or_absent:
  "(holdings_positive p \<and> list_all buys_positive cs \<longrightarrow> holdings_positive (run_calls cs p)) \<and>
   (\<forall>pos'. positions (snd (sell c price q p)) c = Some pos' \<longrightarrow> 0 < quantity pos') \<and>
   (positions p c = Some pos \<and> (q = None \<or> (\<exists>q'. q = Some q' \<and> quantity pos \<le> q'))
      \<longrightarrow> positions (snd (sell c price q p)) c = None)"
proof (intro conjI impI allI)
  assume "holdings_positive p \<and> list_all buys_positive cs"
  then show "holdings_positive (run_calls cs p)"
    by (simp add: run_calls_positive)
next
  fix pos'
  assume "positions (snd (sell c price q p)) c = Some pos'"
  then show "0 < quantity pos'"
    by (rule sell_key_positive_or_absent)
next
  assume "positions p c = Some pos \<and> (q = None \<or> (\<exists>q'. q = Some q' \<and> quantity pos \<le> q'))"
  then show "positions (snd (sell c price q p)) c = None"
    by (simp add: sell_all_removes)
qed

theorem positions_positive_or_absent_witness:
  "holdings_positive (Portfolio_init 1000) \<and>
   list_all buys_positive
     [Buy ''2026-02-17'' ''510050'' ''ETF50'' 10 5, Sell ''510050'' 12 (Some 2),
      Buy ''2026-02-18'' ''510300'' ''ETF300'' 20 1, Sell ''510300'' 21 None] \<and>
   holdings_positive (run_calls
     [Buy ''2026-02-17'' ''510050'' ''ETF50'' 10 5, Sell ''510050'' 12 (Some 2),
      Buy ''2026-02-18'' ''510300'' ''ETF300'' 20 1, Sell ''510300'' 21 None]
     (Portfolio_init 1000))"
proof -
  have h1: "holdings_positive (Portfolio_init 1000)"
    by (simp add: Portfolio_init_def holdings_positive_def)
  have h2: "list_all buys_positive
     [Buy ''2026-02-17'' ''510050'' ''ETF50'' 10 5, Sell ''510050'' 12 (Some 2),
      Buy ''2026-02-18'' ''510300'' ''ETF300'' 20 1, Sell ''510300'' 21 None]"
    by simp
  from positions_positive_or_absent
    [of "Portfolio_init 1000"
        "[Buy ''2026-02-17'' ''510050'' ''ETF50'' 10 5, Sell ''510050'' 12 (Some 2),
          Buy ''2026-02-18'' ''510300'' ''ETF300'' 20 1, Sell ''510300'' 21 None]"]
    h1 h2
  show ?thesis by blast
qed

section \<open>Properties of the indicator columns\<close>


lemma length_rolling_mean [simp]: "length (rolling_mean w xs) = length xs"
  by (simp add: rolling_mean_def)

lemma length_rolling_std [simp]: "length (rolling_std w xs) = length xs"
  by (simp add: rolling_std_def)

lemma length_diff [simp]: "length (diff xs) = length xs"
  by (simp add: diff_def)

lemma length_pct_change [simp]: "length (pct_change xs) = length xs"
  by (simp add: pct_change_def)

lemma nth_rolling_mean:
  "i < length xs \<Longrightarrow> rolling_mean w xs ! i = map_option mean (window w xs i)"
  by (simp add: rolling_mean_def)

lemma nth_rolling_std:
  "i < length xs \<Longrightarrow> rolling_std w xs ! i = Option.bind (window w xs i) sample_std"
  by (simp add: rolling_std_def)

lemma window_take: "i < n \<Longrightarrow> window w (take n xs) i = window w xs i"
proof (cases "0 < w \<and> w \<le> Suc i")
  case False
  then show ?thesis by (auto simp: window_def)
next
  case True
  assume "i < n"
  with True have "min w (n - (Suc i - w)) = w" by arith
  then have "take w (drop (Suc i - w) (take n xs)) = take w (drop (Suc i - w) xs)"
    by (simp add: drop_take)
  then show ?thesis by (simp add: window_def)
qed

lemma rolling_mean_take:
  "i < n \<Longrightarrow> i < length xs \<Longrightarrow> rolling_mean w (take n xs) ! i = rolling_mean w xs ! i"
  by (simp add: nth_rolling_mean window_take)

lemma rolling_std_take:
  "i < n \<Longrightarrow> i < length xs \<Longrightarrow> rolling_std w (take n xs) ! i = rolling_std w xs ! i"
  by (simp add: nth_rolling_std window_take)

lemma length_ma_cross [simp]: "length (ma_cross (TrendStrategy_calculate s l df)) = length df"
  by (simp add: TrendStrategy_calculate_def Let_def)

lemma length_ma_signal [simp]: "length (ma_signal (TrendStrategy_calculate s l df)) = length df"
  by (simp add: TrendStrategy_calculate_def Let_def)

lemma nth_ma_short:
  "i < length df \<Longrightarrow> ma_short (TrendStrategy_calculate s l df) ! i
     = map_option mean (window s (map (\<lambda>b. Some (close b)) df) i)"
  by (simp add: TrendStrategy_calculate_def Let_def nth_rolling_mean)

lemma nth_ma_long:
  "i < length df \<Longrightarrow> ma_long (TrendStrategy_calculate s l df) ! i
     = map_option mean (window l (map (\<lambda>b. Some (close b)) df) i)"
  by (simp add: TrendStrategy_calculate_def Let_def nth_rolling_mean)

lemma nth_ma_cross:
  "i < length df \<Longrightarrow> ma_cross (TrendStrategy_calculate s l df) ! i
     = (let a = ma_short (TrendStrategy_calculate s l df) ! i;
            b = ma_long (TrendStrategy_calculate s l df) ! i
        in if nan_lt a b then - 1 else if nan_gt a b then 1 else 0)"
  by (simp add: TrendStrategy_calculate_def Let_def)

lemma nth_ma_signal:
  "i < length df \<Longrightarrow> ma_signal (TrendStrategy_calculate s l df) ! i
     = (if i = 0 then None
        else Some (sgn (ma_cross (TrendStrategy_calculate s l df) ! i
                        - ma_cross (TrendStrategy_calculate s l df) ! (i - 1))))"
  by (simp add: TrendStrategy_calculate_def Let_def diff_def sgn_if)

lemma map_close_take: "map (\<lambda>b. Some (close b)) (take n df) = take n (map (\<lambda>b. Some (close b)) df)"
  by (simp add: take_map)

lemma ma_short_take:
  "i < n \<Longrightarrow> i < length df \<Longrightarrow>
     ma_short (TrendStrategy_calculate s l (take n df)) ! i = ma_short (TrendStrategy_calculate s l df) ! i"
  by (simp add: nth_ma_short map_close_take window_take)

lemma ma_long_take:
  "i < n \<Longrightarrow> i < length df \<Longrightarrow>
     ma_long (TrendStrategy_calculate s l (take n df)) ! i = ma_long (TrendStrategy_calculate s l df) ! i"
  by (simp add: nth_ma_long map_close_take window_take)

lemma ma_cross_take:
  "i < n \<Longrightarrow> i < length df \<Longrightarrow>
     ma_cross (TrendStrategy_calculate s l (take n df)) ! i = ma_cross (TrendStrategy_calculate s l df) ! i"
  by (simp add: nth_ma_cross ma_short_take ma_long_take)

lemma ma_signal_take:
  "i < n \<Longrightarrow> i < length df \<Longrightarrow>
     ma_signal (TrendStrategy_calculate s l (take n df)) ! i = ma_signal (TrendStrategy_calculate s l df) ! i"
  by (simp add: nth_ma_signal ma_cross_take)

lemma trend_no_lookahead:
  "t < length df \<Longrightarrow>
     TrendFrame_iloc (TrendStrategy_calculate s l (take (Suc t) df)) t
       = TrendFrame_iloc (TrendStrategy_calculate s l df) t"
  by (simp add: TrendFrame_iloc_def ma_short_take ma_long_take ma_cross_take ma_signal_take)



lemma length_band [simp]:
  "length (ma (MeanReversionStrategy_calculate w k df)) = length df"
  "length (std (MeanReversionStrategy_calculate w k df)) = length df"
  "length (upper (MeanReversionStrategy_calculate w k df)) = length df"
  "length (lower (MeanReversionStrategy_calculate w k df)) = length df"
  "length (position (MeanReversionStrategy_calculate w k df)) = length df"
  by (simp_all add: MeanReversionStrategy_calculate_def Let_def)

lemma nth_band_ma:
  "i < length df \<Longrightarrow> ma (MeanReversionStrategy_calculate w k df) ! i
     = map_option mean (window w (map (\<lambda>b. Some (close b)) df) i)"
  by (simp add: MeanReversionStrategy_calculate_def Let_def nth_rolling_mean)

lemma nth_band_std:
  "i < length df \<Longrightarrow> std (MeanReversionStrategy_calculate w k df) ! i
     = Option.bind (window w (map (\<lambda>b. Some (close b)) df) i) sample_std"
  by (simp add: MeanReversionStrategy_calculate_def Let_def nth_rolling_std)

lemma nth_band_upper:
  "i < length df \<Longrightarrow> upper (MeanReversionStrategy_calculate w k df) ! i
     = (case (ma (MeanReversionStrategy_calculate w k df) ! i,
              std (MeanReversionStrategy_calculate w k df) ! i) of
          (Some a, Some d) \<Rightarrow> Some (a + k * d) | _ \<Rightarrow> None)"
  by (simp add: MeanReversionStrategy_calculate_def Let_def cong: option.case_cong)

lemma nth_band_lower:
  "i < length df \<Longrightarrow> lower (MeanReversionStrategy_calculate w k df) ! i
     = (case (ma (MeanReversionStrategy_calculate w k df) ! i,
              std (MeanReversionStrategy_calculate w k df) ! i) of
          (Some a, Some d) \<Rightarrow> Some (a - k * d) | _ \<Rightarrow> None)"
  by (simp add: MeanReversionStrategy_calculate_def Let_def cong: option.case_cong)

lemma nth_band_position:
  "i < length df \<Longrightarrow> position (MeanReversionStrategy_calculate w k df) ! i
     = (case (upper (MeanReversionStrategy_calculate w k df) ! i,
              lower (MeanReversionStrategy_calculate w k df) ! i) of
          (Some u, Some l) \<Rightarrow> if u - l = 0 then None else Some ((close (df ! i) - l) / (u - l))
        | _ \<Rightarrow> None)"
  by (simp add: MeanReversionStrategy_calculate_def Let_def split: option.splits)

lemma band_ma_take:
  "i < n \<Longrightarrow> i < length df \<Longrightarrow>
     ma (MeanReversionStrategy_calculate w k (take n df)) ! i
       = ma (MeanReversionStrategy_calculate w k df) ! i"
  by (simp add: nth_band_ma map_close_take window_take)

lemma band_std_take:
  "i < n \<Longrightarrow> i < length df \<Longrightarrow>
     std (MeanReversionStrategy_calculate w k (take n df)) ! i
       = std (MeanReversionStrategy_calculate w k df) ! i"
  by (simp add: nth_band_std map_close_take window_take)

lemma band_upper_take:
  "i < n \<Longrightarrow> i < length df \<Longrightarrow>
     upper (MeanReversionStrategy_calculate w k (take n df)) ! i
       = upper (MeanReversionStrategy_calculate w k df) ! i"
  by (simp add: nth_band_upper band_ma_take band_std_take)

lemma band_lower_take:
  "i < n \<Longrightarrow> i < length df \<Longrightarrow>
     lower (MeanReversionStrategy_calculate w k (take n df)) ! i
       = lower (MeanReversionStrategy_calculate w k df) ! i"
  by (simp add: nth_band_lower band_ma_take band_std_take)

lemma band_position_take:
  "i < n \<Longrightarrow> i < length df \<Longrightarrow>
     position (MeanReversionStrategy_calculate w k (take n df)) ! i
       = position (MeanReversionStrategy_calculate w k df) ! i"
  by (simp add: nth_band_position band_upper_take band_lower_take split: option.splits)

lemma those_map_Some [simp]: "those (map Some ys) = Some ys"
  by (induction ys) simp_all

lemma take_drop_nth:
  "k + w \<le> length xs \<Longrightarrow> take w (drop k xs) = map (\<lambda>j. xs ! j) [k..<k + w]"
  by (rule nth_equalityI) simp_all

lemma window_closes:
  assumes "i < length xs"
  shows "window w (map Some xs) i
           = (if 0 < w \<and> w \<le> Suc i then Some (map (\<lambda>j. xs ! j) [Suc i - w..<Suc i]) else None)"
proof (cases "0 < w \<and> w \<le> Suc i")
  case False
  then show ?thesis by (auto simp: window_def)
next
  case True
  then have k: "Suc i - w + w = Suc i" by simp
  have "take w (drop (Suc i - w) xs) = map (\<lambda>j. xs ! j) [Suc i - w..<Suc i - w + w]"
    using True assms by (intro take_drop_nth) simp
  then have slice: "take w (drop (Suc i - w) xs) = map (\<lambda>j. xs ! j) [Suc i - w..<Suc i]"
    by (simp only: k)
  have "those (take w (drop (Suc i - w) (map Some xs)))
          = those (map Some (take w (drop (Suc i - w) xs)))"
    by (simp only: take_map drop_map)
  also have "\<dots> = Some (map (\<lambda>j. xs ! j) [Suc i - w..<Suc i])"
    by (simp only: those_map_Some slice)
  finally show ?thesis using True by (simp only: window_def if_True)
qed

lemma ma_is_spec_ma:
  assumes "i < length xs"
  shows "map_option mean (window w (map Some xs) i) = spec_ma w xs i"
  using assms by (simp add: window_closes spec_ma_def mean_def)

lemma close_ma_is_spec_ma:
  "i < length df \<Longrightarrow>
     map_option mean (window w (map (\<lambda>b. Some (close b)) df) i) = spec_ma w (map close df) i"
  using ma_is_spec_ma [of i "map close df" w] by (simp add: comp_def)

lemma ma_cross_is_spec:
  assumes "i < length df"
  shows "ma_cross (TrendStrategy_calculate s l df) ! i = spec_cross_state s l (map close df) i"
proof -
  have a: "ma_short (TrendStrategy_calculate s l df) ! i = spec_ma s (map close df) i"
    using assms by (simp add: nth_ma_short close_ma_is_spec_ma)
  have b: "ma_long (TrendStrategy_calculate s l df) ! i = spec_ma l (map close df) i"
    using assms by (simp add: nth_ma_long close_ma_is_spec_ma)
  show ?thesis
    using assms
    by (cases "spec_ma s (map close df) i"; cases "spec_ma l (map close df) i")
       (simp_all add: nth_ma_cross a b spec_cross_state_def)
qed

lemma last_ma_signal_is_spec:
  assumes "df \<noteq> []"
  shows "last (ma_signal (TrendStrategy_calculate s l df))
           = spec_cross_event s l (map close df) (length df - 1)"
proof -
  from assms have n: "length df - 1 < length df" by simp
  have ne: "ma_signal (TrendStrategy_calculate s l df) \<noteq> []"
    using assms by (metis length_ma_signal length_0_conv)
  have "last (ma_signal (TrendStrategy_calculate s l df))
          = ma_signal (TrendStrategy_calculate s l df) ! (length df - 1)"
    using last_conv_nth [OF ne] by simp
  also have "\<dots> = spec_cross_event s l (map close df) (length df - 1)"
    using n by (simp add: nth_ma_signal ma_cross_is_spec spec_cross_event_def)
  finally show ?thesis .
qed

section \<open>Properties of the regime detector and of the strategies' defaults\<close>


lemma trend_default_returns:
  "\<exists>ts. TrendStrategy_get_signal 5 20 df = Inr ts"
  by (auto simp: TrendStrategy_get_signal_def Let_def)

lemma reversion_default_returns:
  "\<exists>rs. MeanReversionStrategy_get_signal 20 2 df = Inr rs"
  by (auto simp: MeanReversionStrategy_get_signal_def Let_def)

lemma flat_short_signals:
  "TrendStrategy_get_signal 5 20 [] = Inr HOLD"
  "MeanReversionStrategy_get_signal 20 2 [] = Inr HOLD"
  by (simp_all add: TrendStrategy_get_signal_def MeanReversionStrategy_get_signal_def Let_def)

lemma pct_change_first: "xs \<noteq> [] \<Longrightarrow> pct_change xs = None # tl (pct_change xs)"
  by (cases xs) (simp_all add: pct_change_def upt_rec [of 0] del: upt_Suc)

lemma those_None [simp]: "those (None # xs) = None"
  by simp

lemma detect_20_rows:
  assumes "length df = 20"
  shows "detect df = TREND_DOWN \<and> volatility_observations df = 0"
proof -
  let ?c = "map (\<lambda>b. Some (close b)) df"
  let ?r = "pct_change (map close df)"
  from assms have ne: "map close df \<noteq> []" by auto
  have r0: "?r = None # tl ?r" using pct_change_first [OF ne] .
  have len: "length ?r = 20" using assms by simp
  have win: "window 20 ?r i = None" if "i < 20" for i
  proof (cases "i = 19")
    case True
    have "window 20 ?r 19 = those (take 20 ?r)" by (simp add: window_def)
    also have "\<dots> = those ?r" using len by simp
    also have "\<dots> = None" by (subst r0) simp
    finally show ?thesis using True by simp
  next
    case False
    with that show ?thesis by (simp add: window_def)
  qed
  have "rolling_std 20 ?r = map (\<lambda>i. None) [0..<20]"
    unfolding rolling_std_def len by (rule map_cong) (simp_all add: win)
  then have vol: "rolling_std 20 ?r = replicate 20 None"
    by (simp add: map_replicate_const)
  have vol_last: "last (rolling_std 20 ?r) = None"
    by (simp add: vol)
  have ma60_last: "last (rolling_mean 60 ?c) = None"
  proof -
    have "rolling_mean 60 ?c \<noteq> []" using assms by (metis length_rolling_mean length_map list.size(3) zero_neq_numeral)
    then have "last (rolling_mean 60 ?c) = rolling_mean 60 ?c ! 19"
      using assms by (simp add: last_conv_nth)
    also have "\<dots> = None" using assms by (simp add: nth_rolling_mean window_def)
    finally show ?thesis .
  qed
  have obs: "volatility_observations df = 0"
    by (simp add: volatility_observations_def vol)
  have "detect df = TREND_DOWN"
    using assms by (simp add: detect_def Let_def vol_last ma60_last)
  with obs show ?thesis by simp
qed

section \<open>Claims about the indicators, the strategies and the ensemble\<close>

text \<open>
  C9. For every bar sequence and every row index \<open>t\<close> of it, each derived indicator column
  (the short and long moving averages, the cross state \<open>ma_cross\<close>, the cross event
  \<open>ma_signal\<close>, the band mean, deviation, upper and lower bounds and the band position) has
  at row \<open>t\<close> the same value whether the columns are computed on the prefix \<open>bars[0..t]\<close> or
  on the full series: no derived value depends on a bar after row \<open>t\<close>.
\<close>

theorem indicators_no_lookahead:
  "t < length df \<Longrightarrow>
     TrendFrame_iloc (TrendStrategy_calculate short long (take (Suc t) df)) t
       = TrendFrame_iloc (TrendStrategy_calculate short long df) t \<and>
     BandFrame_iloc (MeanReversionStrategy_calculate w k (take (Suc t) df)) t
       = BandFrame_iloc (MeanReversionStrategy_calculate w k df) t"
  by (simp add: TrendFrame_iloc_def BandFrame_iloc_def
      ma_short_take ma_long_take ma_cross_take ma_signal_take
      band_ma_take band_std_take band_upper_take band_lower_take band_position_take)

theorem indicators_no_lookahead_witness:
  "2 < length [\<lparr>date = 0, close = 2\<rparr>, \<lparr>date = 1, close = 1\<rparr>,
               \<lparr>date = 2, close = 3\<rparr>, \<lparr>date = 3, close = 5\<rparr>] \<and>
   TrendFrame_iloc (TrendStrategy_calculate 1 2
       (take (Suc 2) [\<lparr>date = 0, close = 2\<rparr>, \<lparr>date = 1, close = 1\<rparr>,
                      \<lparr>date = 2, close = 3\<rparr>, \<lparr>date = 3, close = 5\<rparr>])) 2
     = TrendFrame_iloc (TrendStrategy_calculate 1 2
         [\<lparr>date = 0, close = 2\<rparr>, \<lparr>date = 1, close = 1\<rparr>,
          \<lparr>date = 2, close = 3\<rparr>, \<lparr>date = 3, close = 5\<rparr>]) 2 \<and>
   BandFrame_iloc (MeanReversionStrategy_calculate 2 2
       (take (Suc 2) [\<lparr>date = 0, close = 2\<rparr>, \<lparr>date = 1, close = 1\<rparr>,
                      \<lparr>date = 2, close = 3\<rparr>, \<lparr>date = 3, close = 5\<rparr>])) 2
     = BandFrame_iloc (MeanReversionStrategy_calculate 2 2
         [\<lparr>date = 0, close = 2\<rparr>, \<lparr>date = 1, close = 1\<rparr>,
          \<lparr>date = 2, close = 3\<rparr>, \<lparr>date = 3, close = 5\<rparr>]) 2"
proof -
  have h: "2 < length [\<lparr>date = 0, close = 2\<rparr>, \<lparr>date = 1, close = 1\<rparr>,
                       \<lparr>date = 2, close = 3\<rparr>, \<lparr>date = 3, close = 5::real\<rparr>]"
    by simp
  from indicators_no_lookahead [OF h, of 1 2 2 2] h show ?thesis by blast
qed

text \<open>
  C8, as stated, fails: the detector's guard counts the rows of the frame, not the
  volatility observations. A series of 20 rows has 19 returns and therefore no complete
  20-day window of returns, so it yields no rolling-volatility observation at all; the
  guard \<open>len(df) < 20\<close> lets it through, both comparisons meet a NaN and are false, and the
  detector returns TREND\_DOWN.
\<close>

theorem regime_20_rows_counterexample:
  "volatility_observations (flat_bars 20 100) < 20 \<and> detect (flat_bars 20 100) = TREND_DOWN"
  using detect_20_rows [of "flat_bars 20 100"] by (simp add: flat_bars_def)

text \<open>
  C8, amended. For every price series with fewer than 20 rows, the regime detector
  returns MEAN\_REVERSION as the conservative default, and so never classifies such a
  series as TREND\_UP or TREND\_DOWN.
\<close>

theorem regime_default_below_20_rows:
  "length df < 20 \<Longrightarrow> detect df = MEAN_REVERSION"
  by (simp add: detect_def)

theorem regime_default_below_20_rows_witness:
  "length (flat_bars 19 100) < 20 \<and> detect (flat_bars 19 100) = MEAN_REVERSION"
proof -
  have h: "length (flat_bars 19 100) < 20" by (simp add: flat_bars_def)
  from regime_default_below_20_rows [OF h] h show ?thesis by blast
qed


section \<open>The strategies and the detector on the crash series\<close>

lemma map_close_flat: "map close (flat_bars n c) = replicate n c"
  by (simp add: flat_bars_def comp_def map_replicate_const)

lemma length_crash [simp]: "length crash_bars = 61"
  by (simp add: crash_bars_def flat_bars_def)

lemma crash_closes: "map close crash_bars = replicate 60 100 @ [90]"
  by (simp add: crash_bars_def map_close_flat)

lemma crash_cells:
  "map (\<lambda>b. Some (close b)) crash_bars = replicate 60 (Some 100) @ [Some 90]"
  by (simp add: crash_bars_def flat_bars_def comp_def map_replicate_const)

lemma crash_ne: "crash_bars \<noteq> []"
  by (simp add: crash_bars_def)

lemma crash_last: "last crash_bars = \<lparr>date = 60, close = 90\<rparr>"
  by (simp add: crash_bars_def)

lemma crash_nth_60: "crash_bars ! 60 = \<lparr>date = 60, close = 90\<rparr>"
  by (simp add: crash_bars_def flat_bars_def nth_append)

lemma crash_nth: "i < 60 \<Longrightarrow> crash_bars ! i = \<lparr>date = i, close = 100\<rparr>"
  by (simp add: crash_bars_def flat_bars_def nth_append)

lemma crash_event: "spec_cross_event 5 20 (replicate 60 100 @ [90]) 60 = Some (- 1)"
  by code_simp

lemma crash_trend: "TrendStrategy_get_signal 5 20 crash_bars = Inr SELL"
  using crash_event
  by (simp add: TrendStrategy_get_signal_def Let_def last_ma_signal_is_spec crash_ne crash_closes)

lemma crash_window:
  "window 20 (replicate 60 (Some 100) @ [Some 90]) 60 = Some (replicate 19 100 @ [90])"
  by code_simp

lemma crash_mean: "mean (replicate 19 100 @ [90]) = 199 / 2"
  by code_simp

lemma crash_var: "sample_var (replicate 19 100 @ [90]) = 5"
  by code_simp

lemma sqrt5: "sqrt 5 < 19 / 4"
  by (rule real_less_lsqrt) (simp_all add: power2_eq_square)

lemma crash_lower: "last (lower (MeanReversionStrategy_calculate 20 2 crash_bars)) = Some (199 / 2 - 2 * sqrt 5)"
proof -
  let ?f = "MeanReversionStrategy_calculate 20 2 crash_bars"
  have ne: "lower ?f \<noteq> []" by (metis length_band(4) crash_ne length_0_conv)
  have "last (lower ?f) = lower ?f ! 60" using last_conv_nth [OF ne] by simp
  also have "\<dots> = Some (199 / 2 - 2 * sqrt 5)"
    by (simp add: nth_band_lower nth_band_ma nth_band_std crash_cells crash_window crash_mean
        sample_std_def crash_var)
  finally show ?thesis .
qed

lemma crash_reversion: "MeanReversionStrategy_get_signal 20 2 crash_bars = Inr BUY"
  using sqrt5
  by (simp add: MeanReversionStrategy_get_signal_def Let_def crash_ne crash_lower crash_last)

lemma crash_returns:
  "pct_change (replicate 60 100 @ [90]) = None # replicate 59 (Some 0) @ [Some (- (1 / 10))]"
  by code_simp

lemma crash_return_windows:
  "map (window 20 (None # replicate 59 (Some 0) @ [Some (- (1 / 10))])) [0..<61]
     = replicate 20 None @ replicate 40 (Some (replicate 20 0))
         @ [Some (replicate 19 0 @ [- (1 / 10)])]"
  by code_simp

lemma calm_var: "sample_var (replicate 20 0) = 0"
  by code_simp

lemma shock_var: "sample_var (replicate 19 0 @ [- (1 / 10)]) = 1 / 2000"
  by code_simp

lemma crash_volatility:
  "rolling_std 20 (pct_change (map close crash_bars))
     = replicate 20 None @ replicate 40 (Some 0) @ [Some (sqrt (1 / 2000))]"
proof -
  let ?r = "None # replicate 59 (Some 0) @ [Some (- (1 / 10) :: real)]"
  have len: "length ?r = 61" by simp
  have "rolling_std 20 ?r = map (\<lambda>v. Option.bind v sample_std) (map (window 20 ?r) [0..<61])"
    unfolding rolling_std_def len by (simp add: comp_def)
  also have "\<dots> = replicate 20 None @ replicate 40 (Some 0) @ [Some (sqrt (1 / 2000))]"
    unfolding crash_return_windows
    by (simp add: sample_std_def calm_var shock_var)
  finally show ?thesis by (simp only: crash_closes crash_returns)
qed

lemma concat_replicate_Nil: "concat (replicate n []) = []"
  by (induction n) simp_all

lemma concat_replicate_single: "concat (replicate n [v]) = replicate n v"
  by (induction n) simp_all

lemma crash_detect: "detect crash_bars = MEAN_REVERSION"
proof -
  let ?s = "sqrt (1 / 2000) :: real"
  have pos: "0 < ?s" by simp
  have avg: "nanmean (replicate 20 None @ replicate 40 (Some 0) @ [Some ?s]) = Some (?s / 41)"
    by (simp add: nanmean_def Let_def concat_replicate_Nil concat_replicate_single mean_def sum_list_replicate)
  have cur: "last (replicate 20 None @ replicate 40 (Some 0) @ [Some ?s]) = Some ?s"
    by simp
  from pos have "?s / 41 * 1.2 < ?s" by simp
  then show ?thesis
    by (simp add: detect_def Let_def crash_volatility avg cur)
qed

lemma crash_signal: "BacktestEngine_get_signal crash_bars 60 = Inr BUY"
  by (simp add: BacktestEngine_get_signal_def Let_def crash_trend crash_reversion crash_detect)

section \<open>Properties of the back-test engine\<close>

lemma check_flat: "current_position e = 0 \<Longrightarrow> check_stop_loss_take_profit pr d e = Inr (False, e)"
  by (simp add: check_stop_loss_take_profit_def)

lemma execute_hold: "execute_trade HOLD pr d e = Inr e"
  by (simp add: execute_trade_def Let_def)

lemma run_day_warmup:
  assumes "current_position e = 0" and "i < 60"
  shows "run_day df i e
           = Inr (e\<lparr>equity_curve := equity_curve e @
                    [\<lparr>point_date = date (df ! i), equity = initial_capital e\<rparr>]\<rparr>)"
  using assms
  by (simp add: run_day_def Let_def check_flat BacktestEngine_get_signal_def execute_hold)

lemma run_days_warmup:
  assumes "current_position e = 0" and "\<forall>i \<in> set ds. i < 60"
  shows "run_days df ds e
           = Inr (e\<lparr>equity_curve := equity_curve e @
                    map (\<lambda>i. \<lparr>point_date = date (df ! i), equity = initial_capital e\<rparr>) ds\<rparr>)"
  using assms
proof (induction ds arbitrary: e)
  case Nil
  then show ?case by simp
next
  case (Cons i ds)
  let ?e = "e\<lparr>equity_curve := equity_curve e @
              [\<lparr>point_date = date (df ! i), equity = initial_capital e\<rparr>]\<rparr>"
  from Cons.prems have day: "run_day df i e = Inr ?e"
    by (simp add: run_day_warmup)
  from Cons.prems have "run_days df ds ?e
      = Inr (?e\<lparr>equity_curve := equity_curve ?e @
               map (\<lambda>i. \<lparr>point_date = date (df ! i), equity = initial_capital ?e\<rparr>) ds\<rparr>)"
    by (intro Cons.IH) simp_all
  with day show ?case by simp
qed

lemma run_days_append:
  "run_days df (xs @ ys) e
     = (case run_days df xs e of Inl err \<Rightarrow> Inl err | Inr e' \<Rightarrow> run_days df ys e')"
  by (induction xs arbitrary: e) (simp_all split: sum.splits)

lemma crash_buy:
  assumes "current_position e = 0" and "initial_capital e = 100000"
  shows "execute_trade BUY 90 60 e
           = Inr (e\<lparr>current_position := 1, entry_price := 3609 / 40,
                    total_trades := total_trades e + 1,
                    trades := trades e @
                      [\<lparr>trade_date = 60, trade_action = ''BUY'',
                        trade_price = round2 (3609 / 40), trade_shares = 332,
                        trade_profit_pct = None\<rparr>]\<rparr>)"
proof -
  have price: "(90::real) + 90 * COMMISSION_RATE + 90 * SLIPPAGE = 3609 / 40"
    by (simp add: COMMISSION_RATE_def SLIPPAGE_def)
  have shares: "py_int (400000 / 1203) = 332"
    by (simp add: py_int_def)
  show ?thesis
    using assms by (simp add: execute_trade_def Let_def price shares)
qed

lemma crash_day_60:
  assumes "current_position e = 0" and "initial_capital e = 100000"
  shows "run_day crash_bars 60 e
           = Inr (e\<lparr>current_position := 1, entry_price := 3609 / 40,
                    total_trades := total_trades e + 1,
                    trades := trades e @
                      [\<lparr>trade_date = 60, trade_action = ''BUY'',
                        trade_price = round2 (3609 / 40), trade_shares = 332,
                        trade_profit_pct = None\<rparr>],
                    equity_curve := equity_curve e @
                      [\<lparr>point_date = 60, equity = 12000000 / 401\<rparr>]\<rparr>)"
  using assms
  by (simp add: run_day_def Let_def check_flat crash_nth_60 crash_signal crash_buy)

lemma crash_loop:
  "run_days crash_bars [0..<length crash_bars] (BacktestEngine_init 100000)
     = Inr \<lparr>initial_capital = 100000,
            trades = [\<lparr>trade_date = 60, trade_action = ''BUY'',
                       trade_price = round2 (3609 / 40), trade_shares = 332,
                       trade_profit_pct = None\<rparr>],
            equity_curve =
              map (\<lambda>i. \<lparr>point_date = date (crash_bars ! i), equity = 100000\<rparr>) [0..<60]
                @ [\<lparr>point_date = 60, equity = 12000000 / 401\<rparr>],
            current_position = 1, entry_price = 3609 / 40,
            total_trades = 1, winning_trades = 0, losing_trades = 0\<rparr>"
proof -
  let ?e0 = "BacktestEngine_init 100000"
  have "length crash_bars = Suc 60" by simp
  then have split: "[0..<length crash_bars] = [0..<60] @ [60]"
    by (simp only: upt_Suc_append [OF le0])
  have warm: "run_days crash_bars [0..<60] ?e0
      = Inr (?e0\<lparr>equity_curve := equity_curve ?e0 @
               map (\<lambda>i. \<lparr>point_date = date (crash_bars ! i), equity = initial_capital ?e0\<rparr>)
                 [0..<60]\<rparr>)"
    by (rule run_days_warmup) (simp_all add: BacktestEngine_init_def)
  show ?thesis
    unfolding split run_days_append warm
    by (simp add: crash_day_60 BacktestEngine_init_def)
qed

lemma check_take_profit_iff:
  "entry \<noteq> 0 \<Longrightarrow>
     check_take_profit rm entry current highest
       = Inr ((current - entry) / entry \<ge> take_profit_pct rm \<and>
              current \<le> highest * (1 - trailing_stop_pct rm))"
  by (simp add: check_take_profit_def Let_def)

lemma execute_sell_open:
  assumes "current_position e = 1" and "entry_price e \<noteq> 0"
  shows "\<exists>e'. execute_trade SELL pr d e = Inr e' \<and> current_position e' = 0"
  using assms by (simp add: execute_trade_def Let_def)

lemma engine_take_profit_immediate:
  assumes "current_position e = 1" and "0 < entry_price e"
    and "TAKE_PROFIT \<le> (pr - entry_price e) / entry_price e"
  shows "\<exists>e'. check_stop_loss_take_profit pr d e = Inr (True, e') \<and> current_position e' = 0"
proof -
  from assms(2,3) have "TAKE_PROFIT * entry_price e \<le> pr - entry_price e"
    by (simp add: pos_le_divide_eq)
  then have pr: "entry_price e * 12 / 10 \<le> pr" by (simp add: TAKE_PROFIT_def)
  with assms(2) have trail: "entry_price e < pr * (1 - TRAILING_STOP)"
    by (simp add: TRAILING_STOP_def)
  have "STOP_LOSS < TAKE_PROFIT" by (simp add: STOP_LOSS_def TAKE_PROFIT_def)
  with assms(3) have nostop: "\<not> (pr - entry_price e) / entry_price e \<le> STOP_LOSS"
    by linarith
  from assms(1,2) obtain e' where "execute_trade SELL pr d e = Inr e'" "current_position e' = 0"
    using execute_sell_open [of e pr d] by auto
  with assms trail nostop show ?thesis
    by (simp add: check_stop_loss_take_profit_def Let_def)
qed


lemma crash_run_equity:
  "map_sum id (\<lambda>e. last (equity_curve e)) (run crash_bars (BacktestEngine_init 100000))
     = Inr \<lparr>point_date = 60, equity = 12000000 / 401\<rparr>"
  using crash_loop by (simp add: run_def crash_ne execute_trade_def Let_def crash_last)

text \<open>The loop keeps \<open>entry_known\<close>, so it never reaches a division by zero.\<close>

lemma execute_trade_entry_known:
  assumes "entry_known e" and "execute_trade sg pr d e = Inr e'"
  shows "entry_known e'"
  using assms
  by (auto simp: execute_trade_def entry_known_def Let_def split: if_splits)

lemma execute_trade_finite:
  "entry_known e \<Longrightarrow> execute_trade sg pr d e \<noteq> Inl NonFinite"
  by (auto simp: execute_trade_def entry_known_def Let_def split: if_splits)

lemma check_entry_known:
  assumes "entry_known e" and "check_stop_loss_take_profit pr d e = Inr (b, e')"
  shows "entry_known e'"
proof (cases "current_position e = 0")
  case True
  with assms show ?thesis by (simp add: check_stop_loss_take_profit_def)
next
  case False
  with assms(1) have ne: "entry_price e \<noteq> 0" by (simp add: entry_known_def)
  from assms(2) False ne
  have "e' = e \<or> execute_trade SELL pr d e = Inr e'"
    by (auto simp: check_stop_loss_take_profit_def Let_def map_sum_def
        split: if_splits sum.splits)
  with assms(1) show ?thesis using execute_trade_entry_known by blast
qed

lemma check_finite:
  assumes "entry_known e"
  shows "check_stop_loss_take_profit pr d e \<noteq> Inl NonFinite"
proof (cases "current_position e = 0")
  case True
  then show ?thesis by (simp add: check_stop_loss_take_profit_def)
next
  case False
  with assms have ne: "entry_price e \<noteq> 0" by (simp add: entry_known_def)
  from execute_trade_finite [OF assms, of SELL pr d] False ne show ?thesis
    by (auto simp: check_stop_loss_take_profit_def Let_def map_sum_def
        split: if_splits sum.splits)
qed

lemma signal_finite: "BacktestEngine_get_signal df i \<noteq> Inl NonFinite"
  by (auto simp: BacktestEngine_get_signal_def Let_def TrendStrategy_get_signal_def
      MeanReversionStrategy_get_signal_def split: sum.splits if_splits)

lemma run_day_entry_known:
  assumes "entry_known e"
  shows "run_day df i e \<noteq> Inl NonFinite"
    and "run_day df i e = Inr e' \<Longrightarrow> entry_known e'"
proof -
  show "run_day df i e \<noteq> Inl NonFinite"
  proof (cases "check_stop_loss_take_profit (close (df ! i)) (date (df ! i)) e")
    case (Inl err)
    with check_finite [OF assms, of "close (df ! i)" "date (df ! i)"] show ?thesis
      by (simp add: run_day_def Let_def)
  next
    case (Inr r)
    obtain b e1 where r: "r = (b, e1)" by (cases r)
    with Inr assms have k1: "entry_known e1" using check_entry_known by blast
    show ?thesis
    proof (cases "current_position e1 = 0")
      case True
      show ?thesis
      proof (cases "BacktestEngine_get_signal df i")
        case (Inl err)
        with signal_finite [of df i] Inr r True show ?thesis
          by (simp add: run_day_def Let_def)
      next
        case sg: (Inr s)
        show ?thesis
        proof (cases "execute_trade s (close (df ! i)) (date (df ! i)) e1")
          case (Inl err)
          with execute_trade_finite [OF k1, of s "close (df ! i)" "date (df ! i)"]
            Inr r True sg show ?thesis
            by (simp add: run_day_def Let_def)
        next
          case e2: (Inr e2)
          with k1 have "entry_known e2" using execute_trade_entry_known by blast
          with Inr r True sg e2 show ?thesis
            by (auto simp: run_day_def Let_def entry_known_def)
        qed
      qed
    next
      case False
      with k1 Inr r show ?thesis
        by (auto simp: run_day_def Let_def entry_known_def)
    qed
  qed
next
  assume ok: "run_day df i e = Inr e'"
  show "entry_known e'"
  proof (cases "check_stop_loss_take_profit (close (df ! i)) (date (df ! i)) e")
    case (Inl err)
    with ok show ?thesis by (simp add: run_day_def Let_def)
  next
    case (Inr r)
    obtain b e1 where r: "r = (b, e1)" by (cases r)
    with Inr assms have k1: "entry_known e1" using check_entry_known by blast
    show ?thesis
    proof (cases "current_position e1 = 0")
      case True
      show ?thesis
      proof (cases "BacktestEngine_get_signal df i")
        case (Inl err)
        with ok Inr r True show ?thesis by (simp add: run_day_def Let_def)
      next
        case sg: (Inr s)
        show ?thesis
        proof (cases "execute_trade s (close (df ! i)) (date (df ! i)) e1")
          case (Inl err)
          with ok Inr r True sg show ?thesis by (simp add: run_day_def Let_def)
        next
          case e2: (Inr e2)
          with k1 have "entry_known e2" using execute_trade_entry_known by blast
          with ok Inr r True sg e2 show ?thesis
            by (auto simp: run_day_def Let_def entry_known_def split: if_splits)
        qed
      qed
    next
      case False
      with ok k1 Inr r show ?thesis
        by (auto simp: run_day_def Let_def entry_known_def split: if_splits)
    qed
  qed
qed

lemma run_days_finite:
  "entry_known e \<Longrightarrow> run_days df ds e \<noteq> Inl NonFinite"
proof (induction ds arbitrary: e)
  case Nil
  then show ?case by simp
next
  case (Cons i ds)
  show ?case
  proof (cases "run_day df i e")
    case (Inl err)
    with run_day_entry_known(1) [OF Cons.prems, of df i] show ?thesis by simp
  next
    case (Inr e')
    with Cons.prems have "entry_known e'" using run_day_entry_known(2) by blast
    with Cons.IH [of e'] Inr show ?thesis by simp
  qed
qed

lemma init_entry_known: "entry_known (BacktestEngine_init ic)"
  by (simp add: entry_known_def BacktestEngine_init_def)

section \<open>Properties of the chart back-test\<close>

text \<open>
  In \<open>backtest_with_chart\<close> every equity point is the cash plus the held shares at the
  day's close, and a trade at the close leaves that value unchanged.
\<close>

lemma chart_day_equity:
  assumes "chart_day f df i st = Inr st'"
  shows "equity_curve_v3 st' = equity_curve_v3 st @
           [\<lparr>point_date = date (df ! i),
             equity = capital st' + held_v3 st' * close (df ! i)\<rparr>]"
  using assms
  by (auto simp: chart_day_def Let_def held_v3_def split: if_splits)

lemma chart_day_value_preserved:
  assumes "chart_day f df i st = Inr st'"
  shows "capital st' + held_v3 st' * close (df ! i) = capital st + held_v3 st * close (df ! i)"
  using assms
  by (auto simp: chart_day_def Let_def held_v3_def split: if_splits)

section \<open>Claims about the back-test\<close>

text \<open>
  C2. The take-profit exit should trigger if and only if the unrealized gain has reached
  the take-profit line and the current price has fallen to the high-water price times
  \<open>1 - trailing_stop_pct\<close>; reaching the line without a pullback should not sell. This
  holds for \<open>RiskManager.check_take_profit\<close> (\<open>check_take_profit_iff\<close>), the function the
  claim describes, but the back-test does not call it: the engine's own
  \<open>check_stop_loss_take_profit\<close> computes a trailing price from the current price instead of
  the high-water price and compares it with the entry price, which a gain of 20 percent
  always exceeds (\<open>engine_take_profit_immediate\<close>). An engine with 100000 buys at a close of
  100 (entry price 100.25); at a close of 125, the highest price since entry, the engine
  sells, while the risk manager built from the same configuration does not trigger on
  entry 100.25, current 125, high-water 125.
\<close>

theorem backtest_take_profit_ignores_pullback:
  "(case execute_trade BUY 100 0 (BacktestEngine_init 100000) of
      Inl err \<Rightarrow> False
    | Inr e \<Rightarrow>
        current_position e = 1 \<and> entry_price e = 401 / 4 \<and>
        map_sum id (\<lambda>r. (fst r, current_position (snd r))) (check_stop_loss_take_profit 125 1 e)
          = Inr (True, 0) \<and>
        check_take_profit BacktestEngine_risk (entry_price e) 125 125 = Inr False)"
proof -
  have price: "(100::real) + 100 * COMMISSION_RATE + 100 * SLIPPAGE = 401 / 4"
    by (simp add: COMMISSION_RATE_def SLIPPAGE_def)
  have shares: "0 < py_int (120000 / 401)"
    by (simp add: py_int_def)
  have risk: "check_take_profit BacktestEngine_risk (401 / 4) 125 125 = Inr False"
    by (simp add: check_take_profit_def BacktestEngine_risk_def TAKE_PROFIT_def TRAILING_STOP_def)
  show ?thesis
    using shares risk
    by (simp add: execute_trade_def Let_def price BacktestEngine_init_def
        check_stop_loss_take_profit_def STOP_LOSS_def TAKE_PROFIT_def TRAILING_STOP_def
        COMMISSION_RATE_def SLIPPAGE_def)
qed

text \<open>
  C1. The equity point appended for a simulated day should be the mark-to-market value
  after that day's trades: cash plus position quantity times the day's close. This holds
  for \<open>backtest_with_chart\<close> (\<open>chart_day_equity\<close>, \<open>chart_day_value_preserved\<close>) and fails
  for \<open>BacktestEngine.run\<close>. On 60 days at 100 followed by a day at 90 the engine
  buys 332 shares on the last day at 90.225; the equity point of that day is
  \<open>30000 \<times> 90 / 90.225\<close>, about 29925.19, below the 30 percent tranche alone, whereas the cash
  left after the purchase plus 332 shares at the close of 90 is 99925.30. The equity
  point leaves out the 70 percent of the capital that stays in cash, and a flat engine
  always reports the initial capital. The forced liquidation at the end of \<open>run\<close> appends no
  equity point.
\<close>

theorem backtest_equity_not_mark_to_market:
  "map_sum id (\<lambda>e. (current_position e, entry_price e, map trade_shares (trades e),
                     last (equity_curve e)))
     (run_days crash_bars [0..<length crash_bars] (BacktestEngine_init 100000))
     = Inr (1, 3609 / 40, [332], \<lparr>point_date = 60, equity = 12000000 / 401\<rparr>) \<and>
   map_sum id (\<lambda>e. last (equity_curve e)) (run crash_bars (BacktestEngine_init 100000))
     = Inr \<lparr>point_date = 60, equity = 12000000 / 401\<rparr> \<and>
   (12000000 / 401 :: real) < 30000 \<and>
   (100000 - 332 * (3609 / 40)) + 332 * 90 = (999253 / 10 :: real)"
  using crash_loop crash_run_equity by simp


section \<open>Properties of the rounding and of the definitions with explicit rounding\<close>

text \<open>
  \<open>double_round\<close> is evaluated by naming the binade of its argument. The lemmas \<open>dr_...\<close>
  round the literals and the intermediate results that occur below: \<open>0.1\<close>, \<open>0.2\<close>, \<open>0.3\<close> and
  \<open>0.4\<close> as doubles are \<open>7205759403792794 / 2\<^sup>5\<^sup>6\<close>, \<open>7205759403792794 / 2\<^sup>5\<^sup>5\<close>,
  \<open>5404319552844595 / 2\<^sup>5\<^sup>4\<close> and \<open>7205759403792794 / 2\<^sup>5\<^sup>4\<close>, written here as reduced
  fractions.
\<close>

lemma powr_powi: "(2::real) powr (of_int k) = 2 powi k"
  by (simp add: powr_real_of_int power_int_def power_one_over inverse_eq_divide)

lemma binade_eq:
  assumes "2 powi e \<le> \<bar>x\<bar>" and "\<bar>x\<bar> < 2 powi (e + 1)"
  shows "binade x = e"
proof -
  have "(0::real) < 2 powi e" by (simp add: zero_less_power_int)
  with assms(1) have pos: "0 < \<bar>x\<bar>" by linarith
  have "2 powr (of_int e) \<le> \<bar>x\<bar> \<and> \<bar>x\<bar> < 2 powr (of_int (e + 1))"
    using assms by (simp only: powr_powi)
  then have "2 powr (of_int e) \<le> \<bar>x\<bar> \<and> \<bar>x\<bar> < 2 powr (of_int e + 1)"
    by simp
  with pos show ?thesis
    unfolding binade_def by (subst floor_log_eq_powr_iff) simp_all
qed

lemma double_round_eval:
  assumes "2 powi e \<le> \<bar>x\<bar>" and "\<bar>x\<bar> < 2 powi (e + 1)"
  shows "double_round x = of_int (round_half_even (x / 2 powi (e - 52))) * 2 powi (e - 52)"
proof -
  have "(0::real) < 2 powi e" by (simp add: zero_less_power_int)
  with assms(1) have "0 < \<bar>x\<bar>" by linarith
  then have "x \<noteq> 0" by auto
  then show ?thesis by (simp add: double_round_def binade_eq [OF assms])
qed

lemma double_round_0 [simp]: "double_round 0 = 0"
  by (simp add: double_round_def)

lemma buy_with_exact: "buy_with (\<lambda>x. x) today c n price q p = buy today c n price q p"
  by (simp add: buy_with_def buy_def)


lemma double_50000: "double_round 50000 = 50000"
  by (subst double_round_eval [of 15]) (simp_all add: round_half_even_def Let_def)


lemma boundary_cost: "double_round (4691249611844267 / 2 ^ 47 * 3) = 100"
  by (subst double_round_eval [of 6]) (simp_all add: round_half_even_def Let_def power_int_minus)

lemma spike_cells:
  "map (\<lambda>b. Some (close b)) spike_bars = replicate 59 (Some 100) @ [Some 101, Some 110]"
  by (simp add: spike_bars_def flat_bars_def comp_def map_replicate_const)

lemma spike_closes: "map close spike_bars = replicate 59 100 @ [101, 110]"
  by (simp add: spike_bars_def map_close_flat)

lemma length_spike [simp]: "length spike_bars = 61"
  by (simp add: spike_bars_def flat_bars_def)

lemma spike_ne: "spike_bars \<noteq> []"
  by (simp add: spike_bars_def)

lemma spike_last: "last spike_bars = \<lparr>date = 60, close = 110\<rparr>"
  by (simp add: spike_bars_def)

lemma spike_event: "spec_cross_event 5 20 (replicate 59 100 @ [101, 110]) 60 = Some 0"
  by code_simp

lemma spike_trend: "TrendStrategy_get_signal 5 20 spike_bars = Inr HOLD"
  using spike_event
  by (simp add: TrendStrategy_get_signal_def Let_def last_ma_signal_is_spec spike_ne spike_closes)

lemma spike_window:
  "window 20 (replicate 59 (Some 100) @ [Some 101, Some 110]) 60
     = Some (replicate 18 100 @ [101, 110])"
  by code_simp

lemma spike_mean: "mean (replicate 18 100 @ [101, 110]) = 2011 / 20"
  by code_simp

lemma spike_var: "sample_var (replicate 18 100 @ [101, 110]) = 1899 / 380"
  by code_simp

lemma spike_sqrt: "sqrt (1899 / 380) < 4"
  by (rule real_less_lsqrt) simp_all

lemma spike_lower:
  "last (lower (MeanReversionStrategy_calculate 20 2 spike_bars))
     = Some (2011 / 20 - 2 * sqrt (1899 / 380))"
proof -
  let ?f = "MeanReversionStrategy_calculate 20 2 spike_bars"
  have ne: "lower ?f \<noteq> []" by (metis length_band(4) spike_ne length_0_conv)
  have "last (lower ?f) = lower ?f ! 60" using last_conv_nth [OF ne] by simp
  also have "\<dots> = Some (2011 / 20 - 2 * sqrt (1899 / 380))"
    by (simp add: nth_band_lower nth_band_ma nth_band_std spike_cells spike_window spike_mean
        sample_std_def spike_var)
  finally show ?thesis .
qed

lemma spike_upper:
  "last (upper (MeanReversionStrategy_calculate 20 2 spike_bars))
     = Some (2011 / 20 + 2 * sqrt (1899 / 380))"
proof -
  let ?f = "MeanReversionStrategy_calculate 20 2 spike_bars"
  have ne: "upper ?f \<noteq> []" by (metis length_band(3) spike_ne length_0_conv)
  have "last (upper ?f) = upper ?f ! 60" using last_conv_nth [OF ne] by simp
  also have "\<dots> = Some (2011 / 20 + 2 * sqrt (1899 / 380))"
    by (simp add: nth_band_upper nth_band_ma nth_band_std spike_cells spike_window spike_mean
        sample_std_def spike_var)
  finally show ?thesis .
qed

lemma spike_reversion: "MeanReversionStrategy_get_signal 20 2 spike_bars = Inr SELL"
proof -
  have nonneg: "0 \<le> sqrt (1899 / 380 :: real)" by simp
  have below: "\<not> (110::real) < 2011 / 20 - 2 * sqrt (1899 / 380)"
    using nonneg by linarith
  have above: "(110::real) > 2011 / 20 + 2 * sqrt (1899 / 380)"
    using spike_sqrt by linarith
  show ?thesis
    using below above
    by (simp add: MeanReversionStrategy_get_signal_def Let_def spike_ne spike_lower spike_upper
        spike_last)
qed


lemma dr_half: "double_round (1 / 2) = 1 / 2"
  by (subst double_round_eval [of "- 1"]) (simp_all add: round_half_even_def Let_def power_int_minus)

lemma dr_01: "double_round (1 / 10) = 3602879701896397 / 36028797018963968"
  by (subst double_round_eval [of "- 4"]) (simp_all add: round_half_even_def Let_def power_int_minus)

lemma dr_03: "double_round (3 / 10) = 5404319552844595 / 18014398509481984"
  by (subst double_round_eval [of "- 2"]) (simp_all add: round_half_even_def Let_def power_int_minus)

lemma dr_04: "double_round (2 / 5) = 3602879701896397 / 9007199254740992"
  by (subst double_round_eval [of "- 2"]) (simp_all add: round_half_even_def Let_def power_int_minus)

lemma dr_neg_01:
  "double_round (- (3602879701896397 / 36028797018963968))
     = - (3602879701896397 / 36028797018963968)"
  by (subst double_round_eval [of "- 4"]) (simp_all add: round_half_even_def Let_def power_int_minus)

lemma dr_d04:
  "double_round (3602879701896397 / 9007199254740992) = 3602879701896397 / 9007199254740992"
  by (subst double_round_eval [of "- 2"]) (simp_all add: round_half_even_def Let_def power_int_minus)

lemma dr_tie:
  "double_round (10808639105689191 / 36028797018963968)
     = 1351079888211149 / 4503599627370496"
  by (subst double_round_eval [of "- 2"]) (simp_all add: round_half_even_def Let_def power_int_minus)

lemma dr_02: "double_round (1 / 5) = 3602879701896397 / 18014398509481984"
  by (subst double_round_eval [of "- 3"]) (simp_all add: round_half_even_def Let_def power_int_minus)

lemma dr_neg_02:
  "double_round (- (3602879701896397 / 18014398509481984))
     = - (3602879701896397 / 18014398509481984)"
  by (subst double_round_eval [of "- 3"]) (simp_all add: round_half_even_def Let_def power_int_minus)

lemma dr_d03:
  "double_round (5404319552844595 / 18014398509481984) = 5404319552844595 / 18014398509481984"
  by (subst double_round_eval [of "- 2"]) (simp_all add: round_half_even_def Let_def power_int_minus)

lemma dr_06:
  "double_round (5404319552844595 / 9007199254740992) = 5404319552844595 / 9007199254740992"
  by (subst double_round_eval [of "- 1"]) (simp_all add: round_half_even_def Let_def power_int_minus)

lemma TrendStrategy_calculate_exact:
  "TrendStrategy_calculate_with rolling_mean short long df = TrendStrategy_calculate short long df"
  by (simp add: TrendStrategy_calculate_with_def TrendStrategy_calculate_def)

lemma TrendStrategy_get_signal_exact:
  "TrendStrategy_get_signal_with rolling_mean short long df = TrendStrategy_get_signal short long df"
  by (simp add: TrendStrategy_get_signal_with_def TrendStrategy_get_signal_def
      TrendStrategy_calculate_exact)

lemma length_ma_signal_with [simp]:
  "length (ma_signal (TrendStrategy_calculate_with rm s l df)) = length df"
  by (simp add: TrendStrategy_calculate_with_def Let_def)

lemma nth_ma_cross_with:
  "i < length df \<Longrightarrow>
     ma_cross (TrendStrategy_calculate_with rm s l df) ! i
       = spec_cross_state_of (rm s (map (\<lambda>b. Some (close b)) df) ! i)
           (rm l (map (\<lambda>b. Some (close b)) df) ! i)"
proof -
  assume i: "i < length df"
  obtain a b where ab: "rm s (map (\<lambda>b. Some (close b)) df) ! i = a"
      "rm l (map (\<lambda>b. Some (close b)) df) ! i = b" by simp
  from i show ?thesis
    unfolding ab
    by (cases a; cases b)
       (auto simp: TrendStrategy_calculate_with_def Let_def spec_cross_state_of_def ab)
qed

lemma nth_ma_signal_with:
  assumes "i < length df"
  shows "ma_signal (TrendStrategy_calculate_with rm s l df) ! i
           = spec_cross_event_of (rm s (map (\<lambda>b. Some (close b)) df))
               (rm l (map (\<lambda>b. Some (close b)) df)) i"
proof -
  let ?f = "TrendStrategy_calculate_with rm s l df"
  have "ma_signal ?f ! i
          = (if i = 0 then None else Some (sgn (ma_cross ?f ! i - ma_cross ?f ! (i - 1))))"
    using assms by (simp add: TrendStrategy_calculate_with_def Let_def diff_def sgn_if)
  also have "\<dots> = spec_cross_event_of (rm s (map (\<lambda>b. Some (close b)) df))
               (rm l (map (\<lambda>b. Some (close b)) df)) i"
    using assms by (simp add: nth_ma_cross_with spec_cross_event_of_def)
  finally show ?thesis .
qed

lemma last_ma_signal_with:
  assumes "df \<noteq> []"
  shows "last (ma_signal (TrendStrategy_calculate_with rm s l df))
           = spec_cross_event_of (rm s (map (\<lambda>b. Some (close b)) df))
               (rm l (map (\<lambda>b. Some (close b)) df)) (length df - 1)"
proof -
  from assms have n: "length df - 1 < length df" by simp
  have ne: "ma_signal (TrendStrategy_calculate_with rm s l df) \<noteq> []"
    using assms by (metis length_ma_signal_with length_0_conv)
  have "last (ma_signal (TrendStrategy_calculate_with rm s l df))
          = ma_signal (TrendStrategy_calculate_with rm s l df) ! (length df - 1)"
    using last_conv_nth [OF ne] by simp
  with nth_ma_signal_with [OF n] show ?thesis by simp
qed

lemma length_rolling_mean_fl [simp]: "length (rolling_mean_fl fl w xs) = length xs"
  by (simp add: rolling_mean_fl_def)

lemma nth_rolling_mean_fl:
  "i < length xs \<Longrightarrow>
     rolling_mean_fl fl w xs ! i
       = map_option (\<lambda>win. fl (foldl (\<lambda>acc x. fl (acc + x)) 0 win / real w)) (window w xs i)"
  by (simp add: rolling_mean_fl_def)

lemma tie_cells:
  "map (\<lambda>b. Some (close b)) tie_bars
     = [Some (3567695329807565 / 36028797018963968),
        Some (3638064073985229 / 36028797018963968),
        Some (3602879701896397 / 36028797018963968)]"
  by (simp add: tie_bars_def)

lemma tie_windows:
  "window (Suc 0) [Some (3567695329807565 / 36028797018963968),
        Some (3638064073985229 / 36028797018963968),
        Some (3602879701896397 / 36028797018963968)] (Suc 0)
     = Some [3638064073985229 / 36028797018963968]"
  "window (Suc 0) [Some (3567695329807565 / 36028797018963968),
        Some (3638064073985229 / 36028797018963968),
        Some (3602879701896397 / 36028797018963968)] 2
     = Some [3602879701896397 / 36028797018963968]"
  "window 3 [Some (3567695329807565 / 36028797018963968),
        Some (3638064073985229 / 36028797018963968),
        Some (3602879701896397 / 36028797018963968)] (Suc 0) = None"
  "window 3 [Some (3567695329807565 / 36028797018963968),
        Some (3638064073985229 / 36028797018963968),
        Some (3602879701896397 / 36028797018963968)] 2
     = Some [3567695329807565 / 36028797018963968,
             3638064073985229 / 36028797018963968,
             3602879701896397 / 36028797018963968]"
  by (simp_all add: window_def)

lemma dr_a:
  "double_round (3567695329807565 / 36028797018963968) = 3567695329807565 / 36028797018963968"
  by (subst double_round_eval [of "- 4"]) (simp_all add: round_half_even_def Let_def power_int_minus)

lemma dr_b:
  "double_round (3638064073985229 / 36028797018963968) = 3638064073985229 / 36028797018963968"
  by (subst double_round_eval [of "- 4"]) (simp_all add: round_half_even_def Let_def power_int_minus)

lemma dr_c:
  "double_round (3602879701896397 / 36028797018963968) = 3602879701896397 / 36028797018963968"
  by (subst double_round_eval [of "- 4"]) (simp_all add: round_half_even_def Let_def power_int_minus)

lemma dr_ab:
  "double_round (3602879701896397 / 18014398509481984) = 3602879701896397 / 18014398509481984"
  by (subst double_round_eval [of "- 3"]) (simp_all add: round_half_even_def Let_def power_int_minus)

lemma dr_third:
  "double_round (1351079888211149 / 13510798882111488)
     = 7205759403792795 / 72057594037927936"
  by (subst double_round_eval [of "- 4"]) (simp_all add: round_half_even_def Let_def power_int_minus)

lemma tie_short_1:
  "rolling_mean_fl double_round (Suc 0) (map (\<lambda>b. Some (close b)) tie_bars) ! Suc 0
     = Some (3638064073985229 / 36028797018963968)"
  by (simp add: tie_cells nth_rolling_mean_fl tie_windows dr_b)

lemma tie_short_2:
  "rolling_mean_fl double_round (Suc 0) (map (\<lambda>b. Some (close b)) tie_bars) ! 2
     = Some (3602879701896397 / 36028797018963968)"
  by (simp add: tie_cells nth_rolling_mean_fl tie_windows dr_c)

lemma tie_long_1:
  "rolling_mean_fl double_round 3 (map (\<lambda>b. Some (close b)) tie_bars) ! Suc 0 = None"
  by (simp add: tie_cells nth_rolling_mean_fl tie_windows)

lemma tie_long_2:
  "rolling_mean_fl double_round 3 (map (\<lambda>b. Some (close b)) tie_bars) ! 2
     = Some (7205759403792795 / 72057594037927936)"
  by (simp add: tie_cells nth_rolling_mean_fl tie_windows dr_a dr_ab dr_tie dr_third)

lemma tie_event:
  "spec_cross_event_of (rolling_mean_fl double_round (Suc 0) (map (\<lambda>b. Some (close b)) tie_bars))
     (rolling_mean_fl double_round 3 (map (\<lambda>b. Some (close b)) tie_bars)) 2 = Some (- 1)"
  by (simp add: spec_cross_event_of_def spec_cross_state_of_def
      tie_short_1 tie_short_2 tie_long_1 tie_long_2)

section \<open>Claims that meet floating-point rounding\<close>

text \<open>
  C6, as stated, fails at a rounding boundary: \<open>buy\<close> compares the float product
  \<open>price * quantity\<close> with the cash, not the exact product. With cash 100, price
  33.333333333333336 (the double \<open>4691249611844267 / 2\<^sup>4\<^sup>7\<close>) and quantity 3 the exact product
  is above the cash by \<open>2\<^sup>-\<^sup>4\<^sup>7\<close>; it lies halfway between two doubles and rounds to 100, so the
  guard \<open>cost > cash\<close> is false, the buy is accepted and the position is stored.
\<close>

theorem buy_exact_cost_counterexample:
  "cash (Portfolio_init 100) < 4691249611844267 / 2 ^ 47 * 3 \<and>
   fst (buy_with double_round ''2026-02-17'' ''600519'' ''Moutai''
          (4691249611844267 / 2 ^ 47) 3 (Portfolio_init 100)) = Inr True \<and>
   map_option quantity
     (positions (snd (buy_with double_round ''2026-02-17'' ''600519'' ''Moutai''
                        (4691249611844267 / 2 ^ 47) 3 (Portfolio_init 100))) ''600519'')
     = Some 3"
  using boundary_cost
  by (simp add: buy_with_def Portfolio_init_def Position_init_def)

text \<open>
  C6, amended. For every portfolio and every buy call whose cost as \<open>buy\<close> computes it, the
  floating-point product of price and quantity, is strictly greater than the current
  cash, \<open>buy\<close> returns \<open>False\<close> and leaves the portfolio unchanged: same cash, same positions
  mapping, same everything else. The statement holds for every rounding \<open>fl\<close> of the
  product; the witness is the scenario of the specification (1000 shares at 50, cash 10000).
\<close>

theorem buy_rounded_cost_rejected:
  "cash p < fl (price * q) \<Longrightarrow> buy_with fl today c n price q p = (Inr False, p)"
  by (simp add: buy_with_def)

theorem buy_rounded_cost_rejected_witness:
  "cash (Portfolio_init 10000) < double_round (50 * 1000) \<and>
   buy_with double_round ''2026-02-17'' ''600519'' ''Moutai'' 50 1000 (Portfolio_init 10000)
     = (Inr False, Portfolio_init 10000)"
proof -
  have h: "cash (Portfolio_init 10000) < double_round (50 * 1000)"
    by (simp add: Portfolio_init_def double_50000)
  from buy_rounded_cost_rejected
    [of "Portfolio_init 10000" double_round 50 1000 "''2026-02-17''" "''600519''" "''Moutai''"] h
  show ?thesis by blast
qed

text \<open>
  C5, as stated, fails at a rounding boundary: the score is a float sum, which is not
  always the sum of the three products. On \<open>spike_bars\<close> the trend strategy returns HOLD and
  the reversion strategy SELL; with the regime TREND\_DOWN and the advisory signal BUY the
  exact sum \<open>0 \<times> 0.5 + (-1) \<times> 0.1 + 1 \<times> 0.4\<close> is 0.3, which is not above the threshold, but
  the float sum \<open>-0.1 + 0.4\<close> is \<open>5404319552844596 / 2\<^sup>5\<^sup>4\<close> (0.30000000000000004), one unit in
  the last place above the double 0.3, and the decision is BUY.
\<close>

theorem ensemble_exact_sum_counterexample:
  "trend_strategy StrategyEnsemble_init spike_bars = Inr HOLD \<and>
   reversion_strategy StrategyEnsemble_init spike_bars = Inr SELL \<and>
   \<not> (0 * 0.5 + (- 1) * 0.1 + 1 * 0.4 > (0.3::real)) \<and>
   (5404319552844596 / 2 ^ 54 :: real) \<noteq> 0 * 0.5 + (- 1) * 0.1 + 1 * 0.4 \<and>
   map_sum id (\<lambda>r. (score r, signal r))
     (get_ensemble_signal double_round StrategyEnsemble_init spike_bars (Some TREND_DOWN)
        (Some BUY))
     = Inr (5404319552844596 / 2 ^ 54, BUY)"
  by (simp add: get_ensemble_signal_def Let_def StrategyEnsemble_init_def spike_trend
      spike_reversion dr_half dr_01 dr_03 dr_04 dr_neg_01 dr_d04 dr_tie)

text \<open>
  C5, amended. For every pair of signals that the trend and the reversion strategy return
  (value \<open>-1\<close>, 0 or \<open>+1\<close>), every regime (given or detected) and every advisory signal
  (HOLD when the advisory model is not configured), the ensemble returns a result whose
  score is the floating-point sum, from left to right, of each signal value times its
  regime weight (TREND\_UP: 0.5, 0.2, 0.3; TREND\_DOWN: 0.5, 0.1, 0.4; MEAN\_REVERSION: 0.2,
  0.5, 0.3 for trend, reversion and advisory, each weight a double), and whose decision is
  BUY exactly when that score is above the double 0.3, SELL exactly when it is below its
  negative, and HOLD otherwise. The statement holds for every rounding \<open>fl\<close> that does not
  make the threshold negative, and for every pair of strategies and every detector.
\<close>

theorem ensemble_float_score_and_decision:
  assumes "trend_strategy self df = Inr ts"
    and "reversion_strategy self df = Inr rs"
    and "0 \<le> fl 0.3"
  shows "\<exists>r. get_ensemble_signal fl self df regime_arg llm = Inr r \<and>
           market_regime r = (case regime_arg of None \<Rightarrow> market_detector self df | Some g \<Rightarrow> g) \<and>
           score r =
             fl (fl (fl (real_of_int (Signal_value ts)
                         * fl (case market_regime r of
                                 TREND_UP \<Rightarrow> 0.5 | TREND_DOWN \<Rightarrow> 0.5 | MEAN_REVERSION \<Rightarrow> 0.2))
                     + fl (real_of_int (Signal_value rs)
                           * fl (case market_regime r of
                                   TREND_UP \<Rightarrow> 0.2 | TREND_DOWN \<Rightarrow> 0.1 | MEAN_REVERSION \<Rightarrow> 0.5)))
                 + fl (real_of_int (Signal_value (case llm of None \<Rightarrow> HOLD | Some s \<Rightarrow> s))
                       * fl (case market_regime r of
                               TREND_UP \<Rightarrow> 0.3 | TREND_DOWN \<Rightarrow> 0.4 | MEAN_REVERSION \<Rightarrow> 0.3))) \<and>
           (signal r = BUY \<longleftrightarrow> score r > fl 0.3) \<and>
           (signal r = SELL \<longleftrightarrow> score r < - fl 0.3) \<and>
           (signal r = HOLD \<longleftrightarrow> - fl 0.3 \<le> score r \<and> score r \<le> fl 0.3)"
proof (cases "case regime_arg of None \<Rightarrow> market_detector self df | Some g \<Rightarrow> g")
  case TREND_UP
  with assms show ?thesis by (simp add: get_ensemble_signal_def Let_def)
next
  case TREND_DOWN
  with assms show ?thesis by (simp add: get_ensemble_signal_def Let_def)
next
  case MEAN_REVERSION
  with assms show ?thesis by (simp add: get_ensemble_signal_def Let_def)
qed

theorem ensemble_float_score_and_decision_witness:
  "trend_strategy StrategyEnsemble_init crash_bars = Inr SELL \<and>
   reversion_strategy StrategyEnsemble_init crash_bars = Inr BUY \<and>
   0 \<le> double_round 0.3 \<and>
   map_sum id (\<lambda>r. (market_regime r, score r, signal r))
     (get_ensemble_signal double_round StrategyEnsemble_init crash_bars None (Some BUY))
     = Inr (MEAN_REVERSION, 5404319552844595 / 2 ^ 53, BUY)"
proof -
  have t: "trend_strategy StrategyEnsemble_init crash_bars = Inr SELL"
    by (simp add: StrategyEnsemble_init_def crash_trend)
  have m: "reversion_strategy StrategyEnsemble_init crash_bars = Inr BUY"
    by (simp add: StrategyEnsemble_init_def crash_reversion)
  have n: "0 \<le> double_round 0.3"
    by (simp add: dr_03)
  have d: "market_detector StrategyEnsemble_init crash_bars = MEAN_REVERSION"
    by (simp add: StrategyEnsemble_init_def crash_detect)
  from ensemble_float_score_and_decision
    [of StrategyEnsemble_init crash_bars SELL BUY double_round None "Some BUY", OF t m n]
  obtain r where r: "get_ensemble_signal double_round StrategyEnsemble_init crash_bars None
                       (Some BUY) = Inr r"
    and mr: "market_regime r = market_detector StrategyEnsemble_init crash_bars"
    and sr: "score r =
             double_round (double_round (double_round (real_of_int (Signal_value SELL)
                         * double_round (case market_regime r of
                                 TREND_UP \<Rightarrow> 0.5 | TREND_DOWN \<Rightarrow> 0.5 | MEAN_REVERSION \<Rightarrow> 0.2))
                     + double_round (real_of_int (Signal_value BUY)
                           * double_round (case market_regime r of
                                   TREND_UP \<Rightarrow> 0.2 | TREND_DOWN \<Rightarrow> 0.1 | MEAN_REVERSION \<Rightarrow> 0.5)))
                 + double_round (real_of_int (Signal_value BUY)
                       * double_round (case market_regime r of
                               TREND_UP \<Rightarrow> 0.3 | TREND_DOWN \<Rightarrow> 0.4 | MEAN_REVERSION \<Rightarrow> 0.3)))"
    and br: "(signal r = BUY) = (score r > double_round 0.3)"
    by auto
  from mr d have reg: "market_regime r = MEAN_REVERSION" by simp
  from sr have score: "score r = 5404319552844595 / 2 ^ 53"
    by (simp add: reg dr_half dr_02 dr_03 dr_neg_02 dr_d03 dr_06)
  with br have "signal r = BUY" by (simp add: dr_03)
  with r reg score t m n show ?thesis by simp
qed

text \<open>
  C7, as stated, fails at a rounding boundary: the strategy compares the moving averages
  that the rolling mean returns as floats, and the float mean of a window can differ from
  its exact mean. On \<open>tie_bars\<close> with windows 1 and 3 the exact short and long means at the
  latest row are equal, so no cross happens there and the cross event of the exact means
  is 0; the float mean of the three closes is \<open>7205759403792795 / 2\<^sup>5\<^sup>6\<close>, one unit in the last
  place above the latest close, the short mean is below it, and the strategy returns SELL.
\<close>

theorem trend_exact_tie_counterexample:
  "spec_ma 1 (map close tie_bars) 2 = spec_ma 3 (map close tie_bars) 2 \<and>
   spec_cross_event 1 3 (map close tie_bars) 2 = Some 0 \<and>
   TrendStrategy_get_signal_with (rolling_mean_fl double_round) 1 3 tie_bars = Inr SELL"
proof -
  have exact: "spec_ma 1 (map close tie_bars) 2 = spec_ma 3 (map close tie_bars) 2"
    by code_simp
  have event: "spec_cross_event 1 3 (map close tie_bars) 2 = Some 0"
    by code_simp
  have len: "length tie_bars = 3" and ne: "tie_bars \<noteq> []"
    by (simp_all add: tie_bars_def)
  have "TrendStrategy_get_signal_with (rolling_mean_fl double_round) 1 3 tie_bars = Inr SELL"
    using tie_event
    by (simp add: TrendStrategy_get_signal_with_def Let_def last_ma_signal_with [OF ne] len ne)
  with exact event show ?thesis by blast
qed

text \<open>
  C7, amended. For every price series, the trend-following strategy returns HOLD when the
  series is shorter than the long window; otherwise it returns BUY exactly when the cross
  event at the latest row, taken on the two moving-average columns as the rolling mean
  computed them, is \<open>+1\<close>, SELL exactly when that cross event is \<open>-1\<close>, and HOLD in all other
  cases, among them a series that is in the golden-cross state with no new crossover at
  the latest row. The statement holds for every rolling mean \<open>rm\<close> that returns columns of
  the frame's length, so for the floating-point one of the library as for the exact one.
  The one input left out is the empty series under a long window of 0, where
  \<open>df.iloc[-1]\<close> raises.
\<close>

theorem trend_signal_is_computed_cross_event:
  assumes "length (rm short (map (\<lambda>b. Some (close b)) df)) = length df"
    and "length (rm long (map (\<lambda>b. Some (close b)) df)) = length df"
  shows
  "(length df < long \<longrightarrow> TrendStrategy_get_signal_with rm short long df = Inr HOLD) \<and>
   (long \<le> length df \<and> df \<noteq> [] \<longrightarrow>
      (TrendStrategy_get_signal_with rm short long df = Inr BUY
         \<longleftrightarrow> spec_cross_event_of (rm short (map (\<lambda>b. Some (close b)) df))
               (rm long (map (\<lambda>b. Some (close b)) df)) (length df - 1) = Some 1) \<and>
      (TrendStrategy_get_signal_with rm short long df = Inr SELL
         \<longleftrightarrow> spec_cross_event_of (rm short (map (\<lambda>b. Some (close b)) df))
               (rm long (map (\<lambda>b. Some (close b)) df)) (length df - 1) = Some (- 1)) \<and>
      (TrendStrategy_get_signal_with rm short long df = Inr HOLD
         \<longleftrightarrow> spec_cross_event_of (rm short (map (\<lambda>b. Some (close b)) df))
               (rm long (map (\<lambda>b. Some (close b)) df)) (length df - 1) \<noteq> Some 1 \<and>
             spec_cross_event_of (rm short (map (\<lambda>b. Some (close b)) df))
               (rm long (map (\<lambda>b. Some (close b)) df)) (length df - 1) \<noteq> Some (- 1)) \<and>
      (spec_cross_state_of (rm short (map (\<lambda>b. Some (close b)) df) ! (length df - 1))
         (rm long (map (\<lambda>b. Some (close b)) df) ! (length df - 1)) = 1 \<and>
       spec_cross_event_of (rm short (map (\<lambda>b. Some (close b)) df))
         (rm long (map (\<lambda>b. Some (close b)) df)) (length df - 1) = Some 0
         \<longrightarrow> TrendStrategy_get_signal_with rm short long df = Inr HOLD))"
  by (auto simp: TrendStrategy_get_signal_with_def Let_def last_ma_signal_with)

theorem trend_signal_is_computed_cross_event_witness:
  "length (rolling_mean 1 (map (\<lambda>b. Some (close b))
       [\<lparr>date = 0, close = 2\<rparr>, \<lparr>date = 1, close = 1\<rparr>, \<lparr>date = 2, close = 3\<rparr>])) = 3 \<and>
   length (rolling_mean 2 (map (\<lambda>b. Some (close b))
       [\<lparr>date = 0, close = 2\<rparr>, \<lparr>date = 1, close = 1\<rparr>, \<lparr>date = 2, close = 3\<rparr>])) = 3 \<and>
   TrendStrategy_get_signal_with rolling_mean 1 2 [\<lparr>date = 0, close = 2\<rparr>] = Inr HOLD \<and>
   TrendStrategy_get_signal_with rolling_mean 1 2
     [\<lparr>date = 0, close = 2\<rparr>, \<lparr>date = 1, close = 1\<rparr>, \<lparr>date = 2, close = 3\<rparr>] = Inr BUY \<and>
   TrendStrategy_get_signal_with rolling_mean 1 2
     [\<lparr>date = 0, close = 2\<rparr>, \<lparr>date = 1, close = 1\<rparr>] = Inr SELL \<and>
   TrendStrategy_get_signal_with rolling_mean 1 2
     [\<lparr>date = 0, close = 2\<rparr>, \<lparr>date = 1, close = 1\<rparr>, \<lparr>date = 2, close = 3\<rparr>,
      \<lparr>date = 3, close = 5\<rparr>] = Inr HOLD"
proof -
  let ?b0 = "\<lparr>date = 0, close = 2::real\<rparr>" and ?b1 = "\<lparr>date = 1, close = 1::real\<rparr>"
  let ?b2 = "\<lparr>date = 2, close = 3::real\<rparr>" and ?b3 = "\<lparr>date = 3, close = 5::real\<rparr>"
  let ?c = "\<lambda>df. map (\<lambda>b. Some (close b)) df"
  have len: "length (rolling_mean w (?c df)) = length df" for w df
    by simp
  have short: "length [?b0] < 2" by simp
  have buy: "spec_cross_event_of (rolling_mean 1 (?c [?b0, ?b1, ?b2]))
               (rolling_mean 2 (?c [?b0, ?b1, ?b2])) (length [?b0, ?b1, ?b2] - 1) = Some 1"
    by code_simp
  have sell: "spec_cross_event_of (rolling_mean 1 (?c [?b0, ?b1]))
                (rolling_mean 2 (?c [?b0, ?b1])) (length [?b0, ?b1] - 1) = Some (- 1)"
    by code_simp
  have state: "spec_cross_state_of
                 (rolling_mean 1 (?c [?b0, ?b1, ?b2, ?b3]) ! (length [?b0, ?b1, ?b2, ?b3] - 1))
                 (rolling_mean 2 (?c [?b0, ?b1, ?b2, ?b3]) ! (length [?b0, ?b1, ?b2, ?b3] - 1))
               = 1"
    by code_simp
  have hold: "spec_cross_event_of (rolling_mean 1 (?c [?b0, ?b1, ?b2, ?b3]))
                (rolling_mean 2 (?c [?b0, ?b1, ?b2, ?b3]))
                (length [?b0, ?b1, ?b2, ?b3] - 1) = Some 0"
    by code_simp
  from trend_signal_is_computed_cross_event
    [where rm = rolling_mean and short = 1 and long = 2 and df = "[?b0]", OF len len] short
  have 1: "TrendStrategy_get_signal_with rolling_mean 1 2 [?b0] = Inr HOLD" by blast
  from trend_signal_is_computed_cross_event
    [where rm = rolling_mean and short = 1 and long = 2 and df = "[?b0, ?b1, ?b2]", OF len len] buy
  have 2: "TrendStrategy_get_signal_with rolling_mean 1 2 [?b0, ?b1, ?b2] = Inr BUY" by simp
  from trend_signal_is_computed_cross_event
    [where rm = rolling_mean and short = 1 and long = 2 and df = "[?b0, ?b1]", OF len len] sell
  have 3: "TrendStrategy_get_signal_with rolling_mean 1 2 [?b0, ?b1] = Inr SELL" by simp
  from trend_signal_is_computed_cross_event
    [where rm = rolling_mean and short = 1 and long = 2 and df = "[?b0, ?b1, ?b2, ?b3]", OF len len]
    state hold
  have 4: "TrendStrategy_get_signal_with rolling_mean 1 2 [?b0, ?b1, ?b2, ?b3] = Inr HOLD"
    by simp
  from 1 2 3 4 len [of 1 "[?b0, ?b1, ?b2]"] len [of 2 "[?b0, ?b1, ?b2]"] show ?thesis
    by simp
qed

end
